theory Spec2Isabelle
  imports Main
begin

section \<open>Python values\<close>

text \<open>
  The directive lists of \<^verbatim>\<open>PAN_OS_Upgrade_Assurance.py\<close> mix strings and nested
  dictionaries, and two parameters are tested with \<^verbatim>\<open>isinstance(x, int)\<close>, so the
  values the script handles are modelled as one datatype.  A dictionary is an association
  list in insertion order (the order of the keys in the source's dict literal).
\<close>

datatype pyval =
    PyNone
  | PyBool bool
  | PyInt int
  | PyStr string
  | PyList "pyval list"
  | PyDict "(string \<times> pyval) list"

datatype error = ValueError string | TypeError string

text \<open>\<^verbatim>\<open>isinstance(v, int)\<close>: in Python \<^verbatim>\<open>bool\<close> is a subclass of \<^verbatim>\<open>int\<close>.\<close>

fun isinstance_int :: "pyval \<Rightarrow> bool" where
  "isinstance_int (PyInt n) = True"
| "isinstance_int (PyBool b) = True"
| "isinstance_int v = False"

fun type_name :: "pyval \<Rightarrow> string" where
  "type_name PyNone = ''NoneType''"
| "type_name (PyBool b) = ''bool''"
| "type_name (PyInt n) = ''int''"
| "type_name (PyStr s) = ''str''"
| "type_name (PyList xs) = ''list''"
| "type_name (PyDict kvs) = ''dict''"

text \<open>
  \<^verbatim>\<open>v > k\<close> and \<^verbatim>\<open>v >= k\<close> against an integer literal: defined on
  \<^verbatim>\<open>int\<close> and \<^verbatim>\<open>bool\<close>, a \<^verbatim>\<open>TypeError\<close> on every other type of this model.
\<close>

definition quoted :: "string \<Rightarrow> string" where
  "quoted s = CHR 0x27 # s @ [CHR 0x27]"

definition unsupported :: "string \<Rightarrow> pyval \<Rightarrow> error" where
  "unsupported operator v =
     TypeError (quoted operator @ '' not supported between instances of '' @
                quoted (type_name v) @ '' and '' @ quoted ''int'')"

fun py_gt :: "pyval \<Rightarrow> int \<Rightarrow> error + bool" where
  "py_gt (PyInt n) k = Inr (n > k)"
| "py_gt (PyBool b) k = Inr ((if b then 1 else 0) > k)"
| "py_gt v k = Inl (unsupported ''>'' v)"

fun py_ge :: "pyval \<Rightarrow> int \<Rightarrow> error + bool" where
  "py_ge (PyInt n) k = Inr (n \<ge> k)"
| "py_ge (PyBool b) k = Inr ((if b then 1 else 0) \<ge> k)"
| "py_ge v k = Inl (unsupported ''>='' v)"

text \<open>
  An \<^verbatim>\<open>Optional[str]\<close> parameter: its truth value (\<^verbatim>\<open>if p:\<close> holds for a non-empty
  string only) and the value stored in a directive.
\<close>

fun supplied :: "string option \<Rightarrow> bool" where
  "supplied None = False"
| "supplied (Some s) = (s \<noteq> [])"

fun str_val :: "string option \<Rightarrow> pyval" where
  "str_val None = PyNone"
| "str_val (Some s) = PyStr s"

text \<open>\<^verbatim>\<open>not xs\<close> for an \<^verbatim>\<open>Optional[List]\<close>: true for \<^verbatim>\<open>None\<close> and for the empty list.\<close>

fun not_list :: "'a list option \<Rightarrow> bool" where
  "not_list None = True"
| "not_list (Some xs) = (xs = [])"

text \<open>
  The name of a directive: a bare identifier names itself, a parameterized directive is a
  dictionary with one key.
\<close>

fun directive_name :: "pyval \<Rightarrow> string option" where
  "directive_name (PyStr s) = Some s"
| "directive_name (PyDict [(k, v)]) = Some k"
| "directive_name v = None"

section \<open>compare_snapshots\<close>

text \<open>
  \<^verbatim>\<open>compare_snapshots\<close> builds the list \<^verbatim>\<open>snapshot_comparisons\<close> and hands it to
  \<^verbatim>\<open>SnapshotCompare.compare_snapshots\<close> of the external library; the model returns the
  list that is handed over.  The two snapshots are only passed on to the library.
\<close>

definition default_snapshot_list :: "string list" where
  "default_snapshot_list =
     [''nics'', ''routes'', ''license'', ''arp_table'', ''content_version'',
      ''session_stats'', ''ip_sec_tunnels'']"

definition snapshot_list_or_default :: "string list option \<Rightarrow> string list" where
  "snapshot_list_or_default snapshot_list =
     (case snapshot_list of
        None \<Rightarrow> default_snapshot_list
      | Some xs \<Rightarrow> if xs = [] then default_snapshot_list else xs)"

definition session_stats_comparison :: "pyval \<Rightarrow> pyval" where
  "session_stats_comparison threshold =
     PyDict [(''session_stats'',
        PyDict [(''thresholds'',
          PyList [PyDict [(''num-max'', threshold)], PyDict [(''num-tcp'', threshold)]])])]"

definition compare_snapshots ::
  "pyval \<Rightarrow> pyval \<Rightarrow> string list option \<Rightarrow> pyval \<Rightarrow> error + pyval list" where
  "compare_snapshots left_snapshot right_snapshot snapshot_list session_stats_threshold =
    (let sl = snapshot_list_or_default snapshot_list;
         sc0 = [];
         sc1 = (if ''nics'' \<in> set sl
                then sc0 @ [PyDict [(''nics'', PyDict [(''count_change_threshold'', PyInt 10)])]]
                else sc0);
         sc2 = (if ''routes'' \<in> set sl
                then sc1 @ [PyDict [(''routes'',
                       PyDict [(''properties'', PyList [PyStr ''!flags'', PyStr ''!age'']),
                               (''count_change_threshold'', PyInt 10)])]]
                else sc1);
         sc3 = (if ''license'' \<in> set sl
                then sc2 @ [PyDict [(''license'',
                       PyDict [(''properties'',
                         PyList [PyStr ''!serial'', PyStr ''!issued'', PyStr ''!authcode''])])]]
                else sc2);
         sc4 = (if ''arp_table'' \<in> set sl
                then sc3 @ [PyDict [(''arp_table'',
                       PyDict [(''properties'', PyList [PyStr ''!ttl'']),
                               (''count_change_threshold'', PyInt 10)])]]
                else sc3);
         sc5 = (if ''content_version'' \<in> set sl
                then sc4 @ [PyStr ''content_version'']
                else sc4)
     in case (if ''session_stats'' \<in> set sl
              then (case (if isinstance_int session_stats_threshold
                          then py_gt session_stats_threshold 0 else Inr False) of
                      Inl e \<Rightarrow> Inl e
                    | Inr positive \<Rightarrow>
                        if positive
                        then Inr (sc5 @ [session_stats_comparison session_stats_threshold])
                        else Inr (sc5 @ [session_stats_comparison (PyInt 10)]))
              else Inr sc5) of
          Inl e \<Rightarrow> Inl e
        | Inr sc6 \<Rightarrow>
           (let sc7 = (if ''ip_sec_tunnels'' \<in> set sl
                       then sc6 @ [PyDict [(''ip_sec_tunnels'',
                              PyDict [(''properties'', PyList [PyStr ''state''])])]]
                       else sc6);
                sc8 = (if ''bgp_peers'' \<in> set sl
                       then sc7 @ [PyDict [(''bgp_peers'',
                              PyDict [(''properties'', PyList [PyStr ''status''])])]]
                       else sc7)
            in Inr sc8))"

section \<open>parse_session\<close>

text \<open>
  \<^verbatim>\<open>str.split(sep)\<close> with a one-character separator: the fields between the
  separators, empty fields included; a string without separator is one field.
\<close>

fun split_on :: "char \<Rightarrow> string \<Rightarrow> string list" where
  "split_on sep [] = [[]]"
| "split_on sep (c # cs) =
     (if c = sep then [] # split_on sep cs
      else (case split_on sep cs of
              [] \<Rightarrow> [[c]]
            | w # ws \<Rightarrow> (c # w) # ws))"

text \<open>
  \<^verbatim>\<open>source, destination, port = session_str.split("/")\<close>: unpacking raises
  \<^verbatim>\<open>ValueError\<close> unless there are exactly three fields.
\<close>

definition parse_session :: "string \<Rightarrow> error + pyval" where
  "parse_session session_str =
     (case split_on CHR ''/'' session_str of
        [] \<Rightarrow> Inl (ValueError ''not enough values to unpack (expected 3, got 0)'')
      | [a] \<Rightarrow> Inl (ValueError ''not enough values to unpack (expected 3, got 1)'')
      | [a, b] \<Rightarrow> Inl (ValueError ''not enough values to unpack (expected 3, got 2)'')
      | [source, destination, port] \<Rightarrow>
          Inr (PyDict [(''source'', PyStr source),
                       (''destination'', PyStr destination),
                       (''dest_port'', PyStr port)])
      | _ \<Rightarrow> Inl (ValueError ''too many values to unpack (expected 3)''))"

section \<open>run_readiness_checks\<close>

text \<open>
  Of the firewall proxy the script reads the serial number and the HA configuration
  (\<^verbatim>\<open>firewall.get_ha_configuration().get('enabled') == 'yes'\<close>).
\<close>

record firewall =
  serial :: string
  ha_configuration :: "string \<rightharpoonup> string"

definition ha_enabled :: "firewall \<Rightarrow> bool" where
  "ha_enabled fw = (ha_configuration fw ''enabled'' = Some ''yes'')"

definition default_check_list :: "firewall \<Rightarrow> string list" where
  "default_check_list fw =
     (let check_list = [''panorama'', ''ntp_sync'', ''candidate_config'', ''active_support'']
      in if ha_enabled fw then check_list @ [''ha''] else check_list)"

text \<open>
  \<^verbatim>\<open>if not check_list: check_list = [...]\<close> rebinds the local name to a fresh list; a
  non-empty list of the caller stays the very object the function then mutates.
  \<open>local_check_list\<close> is the list the local name denotes after that statement,
  \<open>caller_check_list\<close> the caller's own argument once the local list has become \<open>l\<close>.
\<close>

definition local_check_list :: "firewall \<Rightarrow> string list option \<Rightarrow> string list" where
  "local_check_list fw check_list =
     (case check_list of
        None \<Rightarrow> default_check_list fw
      | Some xs \<Rightarrow> if xs = [] then default_check_list fw else xs)"

definition caller_check_list :: "string list option \<Rightarrow> string list \<Rightarrow> string list option" where
  "caller_check_list check_list l = (if not_list check_list then check_list else Some l)"

text \<open>
  The function works on two lists, \<^verbatim>\<open>check_list\<close> and \<^verbatim>\<open>custom_checks\<close>; each block
  of the source is one step on that pair.  \<^verbatim>\<open>list.remove(x)\<close> deletes the first
  occurrence of \<open>x\<close>, which is \<^const>\<open>remove1\<close>; every call is guarded by \<^verbatim>\<open>x in check_list\<close>.
\<close>

type_synonym checks = "string list \<times> pyval list"

definition content_version_step :: "string option \<Rightarrow> checks \<Rightarrow> checks" where
  "content_version_step min_content_version st =
     (case st of (check_list, custom_checks) \<Rightarrow>
        if ''content_version'' \<in> set check_list
        then (if supplied min_content_version
              then (remove1 ''content_version'' check_list,
                    custom_checks @
                      [PyDict [(''content_version'',
                         PyDict [(''version'', str_val min_content_version)])]])
              else (check_list, custom_checks))
        else (check_list, custom_checks))"

definition free_disk_space_step :: "string option \<Rightarrow> checks \<Rightarrow> checks" where
  "free_disk_space_step candidate_version st =
     (case st of (check_list, custom_checks) \<Rightarrow>
        if supplied candidate_version
        then (check_list,
              custom_checks @
                [PyDict [(''free_disk_space'',
                   PyDict [(''image_version'', str_val candidate_version)])]])
        else (check_list @ [''free_disk_space''], custom_checks))"

definition planes_clock_sync_step :: "pyval \<Rightarrow> checks \<Rightarrow> error + checks" where
  "planes_clock_sync_step dp_mp_clock_diff st =
     (case st of (check_list, custom_checks) \<Rightarrow>
        if ''planes_clock_sync'' \<in> set check_list
        then (case (if isinstance_int dp_mp_clock_diff
                    then py_ge dp_mp_clock_diff 0 else Inr False) of
                Inl e \<Rightarrow> Inl e
              | Inr non_negative \<Rightarrow>
                  Inr (remove1 ''planes_clock_sync'' check_list,
                       if non_negative
                       then custom_checks @
                              [PyDict [(''planes_clock_sync'',
                                 PyDict [(''diff_threshold'', dp_mp_clock_diff)])]]
                       else custom_checks))
        else Inr (check_list, custom_checks))"

definition ip_sec_tunnel_status_step :: "string option \<Rightarrow> checks \<Rightarrow> checks" where
  "ip_sec_tunnel_status_step ipsec_tunnel_status st =
     (case st of (check_list, custom_checks) \<Rightarrow>
        if ''ip_sec_tunnel_status'' \<in> set check_list
        then (remove1 ''ip_sec_tunnel_status'' check_list,
              if supplied ipsec_tunnel_status
              then custom_checks @
                     [PyDict [(''ip_sec_tunnel_status'',
                        PyDict [(''tunnel_name'', str_val ipsec_tunnel_status)])]]
              else custom_checks)
        else (check_list, custom_checks))"

definition session_error :: "string \<Rightarrow> error" where
  "session_error check_session_exists =
     ValueError (check_session_exists @
       '' is not a valid session string. Must be 'source/destination/port'.'')"

definition session_exist_step :: "string option \<Rightarrow> checks \<Rightarrow> error + checks" where
  "session_exist_step check_session_exists st =
     (case st of (check_list, custom_checks) \<Rightarrow>
        if ''session_exist'' \<in> set check_list
        then (case check_session_exists of
                None \<Rightarrow> Inr (remove1 ''session_exist'' check_list, custom_checks)
              | Some s \<Rightarrow>
                  if s = [] then Inr (remove1 ''session_exist'' check_list, custom_checks)
                  else (case parse_session s of
                          Inl (ValueError m) \<Rightarrow> Inl (session_error s)
                        | Inl (TypeError m) \<Rightarrow> Inl (TypeError m)
                        | Inr check_value \<Rightarrow>
                            Inr (remove1 ''session_exist'' check_list,
                                 custom_checks @ [PyDict [(''session_exist'', check_value)]])))
        else Inr (check_list, custom_checks))"

definition arp_entry_exists_step :: "string option \<Rightarrow> checks \<Rightarrow> checks" where
  "arp_entry_exists_step arp_entry_exists st =
     (case st of (check_list, custom_checks) \<Rightarrow>
        if ''arp_entry_exists'' \<in> set check_list
        then (remove1 ''arp_entry_exists'' check_list,
              if supplied arp_entry_exists
              then custom_checks @
                     [PyDict [(''arp_entry_exist'',
                        PyDict [(''ip'', str_val arp_entry_exists)])]]
              else custom_checks)
        else (check_list, custom_checks))"

text \<open>
  The result is a pair: the caller's \<^verbatim>\<open>check_list\<close> argument as it is when the
  function returns or raises, and either the error raised or \<^verbatim>\<open>check_config\<close>, the
  directive list handed to \<^verbatim>\<open>CheckFirewall.run_readiness_checks\<close> of the external
  library.  A step that raises does so before it removes its identifier.
\<close>

definition run_readiness_checks ::
  "firewall \<Rightarrow> string list option \<Rightarrow> string option \<Rightarrow> string option \<Rightarrow> pyval \<Rightarrow>
   string option \<Rightarrow> string option \<Rightarrow> string option \<Rightarrow>
   string list option \<times> (error + pyval list)" where
  "run_readiness_checks fw check_list min_content_version candidate_version dp_mp_clock_diff
     ipsec_tunnel_status check_session_exists arp_entry_exists =
    (let st0 = (local_check_list fw check_list, []);
         st1 = content_version_step min_content_version st0;
         st2 = free_disk_space_step candidate_version st1
     in case planes_clock_sync_step dp_mp_clock_diff st2 of
          Inl e \<Rightarrow> (caller_check_list check_list (fst st2), Inl e)
        | Inr st3 \<Rightarrow>
           (let st4 = ip_sec_tunnel_status_step ipsec_tunnel_status st3
            in case session_exist_step check_session_exists st4 of
                 Inl e \<Rightarrow> (caller_check_list check_list (fst st4), Inl e)
               | Inr st5 \<Rightarrow>
                  (let st6 = arp_entry_exists_step arp_entry_exists st5
                   in (caller_check_list check_list (fst st6),
                       Inr (map PyStr (fst st6) @ snd st6)))))"

section \<open>command_run_readiness_checks\<close>

text \<open>
  The arguments of the command, as the platform passes them: every value is a string, a
  key that is absent is \<open>None\<close>.  The serial number is a required argument.
\<close>

record readiness_args =
  firewall_serial :: string
  arg_check_list :: "string option"
  arg_min_content_version :: "string option"
  arg_candidate_version :: "string option"
  arg_dp_mp_clock_diff :: "string option"
  arg_ipsec_tunnel_status :: "string option"
  arg_check_session_exists :: "string option"
  arg_arp_entry_exists :: "string option"

text \<open>
  \<^verbatim>\<open>if old in check_list: check_list.remove(old); check_list.append(new)\<close>, the renaming
  of a user-facing identifier.
\<close>

definition rename_check :: "string \<Rightarrow> string \<Rightarrow> string list \<Rightarrow> string list" where
  "rename_check old new check_list =
     (if old \<in> set check_list then remove1 old check_list @ [new] else check_list)"

text \<open>
  \<^verbatim>\<open>(arp_entry := args.get('arp_entry_exists')) and not is_ip_valid(arp_entry)\<close>: the
  entry that makes the command raise, if there is one.
\<close>

definition invalid_arp_entry :: "(string \<Rightarrow> bool) \<Rightarrow> string option \<Rightarrow> string option" where
  "invalid_arp_entry is_ip_valid arg =
     (case arg of
        None \<Rightarrow> None
      | Some arp_entry \<Rightarrow>
          if arp_entry \<noteq> [] \<and> \<not> is_ip_valid arp_entry then Some arp_entry else None)"

definition arp_error :: "string \<Rightarrow> error" where
  "arp_error arp_entry = ValueError (arp_entry @ '' is not a valid IPv4 address.'')"

text \<open>
  \<^verbatim>\<open>is_ip_valid\<close>, \<^verbatim>\<open>argToList\<close> and \<^verbatim>\<open>arg_to_number\<close> come from the platform's
  \<^verbatim>\<open>CommonServerPython\<close> and the firewall from the Panorama object; they are parameters
  of the model.  \<^verbatim>\<open>arg_to_number\<close> may raise, and does so before the ARP entry is
  looked at.  The model returns the error raised or the directive list handed to the
  evaluator by \<^verbatim>\<open>run_readiness_checks\<close>; building the \<^verbatim>\<open>CommandResults\<close> from the
  evaluator's answer is the platform's.
\<close>

definition command_run_readiness_checks ::
  "(string \<Rightarrow> bool) \<Rightarrow> (string option \<Rightarrow> string list) \<Rightarrow>
   (string option \<Rightarrow> error + int option) \<Rightarrow> (string \<Rightarrow> firewall) \<Rightarrow>
   readiness_args \<Rightarrow> error + pyval list" where
  "command_run_readiness_checks is_ip_valid argToList arg_to_number panorama args =
    (let fw = panorama (firewall_serial args);
         check_list = argToList (arg_check_list args);
         check_list = rename_check ''dp_mp_clock_diff'' ''planes_clock_sync'' check_list
     in case arg_to_number (arg_dp_mp_clock_diff args) of
          Inl e \<Rightarrow> Inl e
        | Inr number \<Rightarrow>
           (let dp_mp_clock_diff = (case number of None \<Rightarrow> PyNone | Some n \<Rightarrow> PyInt n);
                check_list = rename_check ''ipsec_tunnel'' ''ip_sec_tunnel_status'' check_list;
                check_list = rename_check ''arp'' ''arp_entry_exists'' check_list
            in case invalid_arp_entry is_ip_valid (arg_arp_entry_exists args) of
                 Some arp_entry \<Rightarrow> Inl (arp_error arp_entry)
               | None \<Rightarrow>
                   snd (run_readiness_checks fw (Some check_list)
                          (arg_min_content_version args) (arg_candidate_version args)
                          dp_mp_clock_diff (arg_ipsec_tunnel_status args)
                          (arg_check_session_exists args) (arg_arp_entry_exists args))))"

section \<open>Calls on the caller's list object\<close>




section \<open>Notions used to state the results\<close>

text \<open>The order in which \<^verbatim>\<open>compare_snapshots\<close> tests the identifiers.\<close>

definition canonical_order :: "string list" where
  "canonical_order =
     [''nics'', ''routes'', ''license'', ''arp_table'', ''content_version'',
      ''session_stats'', ''ip_sec_tunnels'', ''bgp_peers'']"

text \<open>
  The threshold of the specification: the caller's value if it is a positive integer
  (an \<^verbatim>\<open>int\<close> instance, \<^verbatim>\<open>True\<close> included), 10 otherwise.
\<close>

fun threshold_or_default :: "pyval \<Rightarrow> pyval" where
  "threshold_or_default (PyInt n) = (if n > 0 then PyInt n else PyInt 10)"
| "threshold_or_default (PyBool b) = (if b then PyBool b else PyInt 10)"
| "threshold_or_default v = PyInt 10"

text \<open>The table of section 4.2 of the specification: the directive of each identifier.\<close>

definition comparison_directive :: "pyval \<Rightarrow> string \<Rightarrow> pyval" where
  "comparison_directive T i =
    (if i = ''nics''
     then PyDict [(''nics'', PyDict [(''count_change_threshold'', PyInt 10)])]
     else if i = ''routes''
     then PyDict [(''routes'',
            PyDict [(''properties'', PyList [PyStr ''!flags'', PyStr ''!age'']),
                    (''count_change_threshold'', PyInt 10)])]
     else if i = ''license''
     then PyDict [(''license'',
            PyDict [(''properties'',
              PyList [PyStr ''!serial'', PyStr ''!issued'', PyStr ''!authcode''])])]
     else if i = ''arp_table''
     then PyDict [(''arp_table'',
            PyDict [(''properties'', PyList [PyStr ''!ttl'']),
                    (''count_change_threshold'', PyInt 10)])]
     else if i = ''session_stats''
     then PyDict [(''session_stats'',
            PyDict [(''thresholds'',
              PyList [PyDict [(''num-max'', T)], PyDict [(''num-tcp'', T)]])])]
     else if i = ''ip_sec_tunnels''
     then PyDict [(''ip_sec_tunnels'', PyDict [(''properties'', PyList [PyStr ''state''])])]
     else if i = ''bgp_peers''
     then PyDict [(''bgp_peers'', PyDict [(''properties'', PyList [PyStr ''status''])])]
     else PyStr i)"

text \<open>The number of directives of a list that carry a given name, bare or parameterized.\<close>

definition count_named :: "string \<Rightarrow> pyval list \<Rightarrow> nat" where
  "count_named n ds = length (filter (\<lambda>d. directive_name d = Some n) ds)"

text \<open>
  A non-negative integer, as \<^verbatim>\<open>isinstance(v, int) and v >= 0\<close> sees it: a non-negative
  \<^verbatim>\<open>int\<close>, or a \<^verbatim>\<open>bool\<close> (whose value is 0 or 1).
\<close>

fun is_nonneg_integer :: "pyval \<Rightarrow> bool" where
  "is_nonneg_integer (PyInt n) = (0 \<le> n)"
| "is_nonneg_integer (PyBool b) = True"
| "is_nonneg_integer v = False"

text \<open>
  Closed forms of what \<^const>\<open>run_readiness_checks\<close> computes, for the proofs: whether the
  session string makes it raise, the session directive, what is left of the check list
  after the first four blocks, the directives these blocks add, and the whole output.
\<close>

definition session_malformed :: "string option \<Rightarrow> bool" where
  "session_malformed cse =
     (case cse of
        None \<Rightarrow> False
      | Some s \<Rightarrow> s \<noteq> [] \<and> length (split_on CHR ''/'' s) \<noteq> 3)"

definition session_directives :: "string option \<Rightarrow> pyval list" where
  "session_directives cse =
     (case cse of
        None \<Rightarrow> []
      | Some s \<Rightarrow>
          if s = [] then []
          else (case split_on CHR ''/'' s of
                  [a, b, c] \<Rightarrow>
                    [PyDict [(''session_exist'',
                       PyDict [(''source'', PyStr a), (''destination'', PyStr b),
                               (''dest_port'', PyStr c)])]]
                | _ \<Rightarrow> []))"

definition remaining_checks :: "string list \<Rightarrow> bool \<Rightarrow> bool \<Rightarrow> string list" where
  "remaining_checks l m c =
     remove1 ''ip_sec_tunnel_status'' (remove1 ''planes_clock_sync''
       ((if m then remove1 ''content_version'' l else l) @
        (if c then [] else [''free_disk_space''])))"

definition custom_directives ::
  "string list \<Rightarrow> string option \<Rightarrow> string option \<Rightarrow> pyval \<Rightarrow> string option \<Rightarrow> pyval list" where
  "custom_directives l mcv cand dp ips =
     (if ''content_version'' \<in> set l \<and> supplied mcv
      then [PyDict [(''content_version'', PyDict [(''version'', str_val mcv)])]] else []) @
     (if supplied cand
      then [PyDict [(''free_disk_space'', PyDict [(''image_version'', str_val cand)])]] else []) @
     (if ''planes_clock_sync'' \<in> set l \<and> is_nonneg_integer dp
      then [PyDict [(''planes_clock_sync'', PyDict [(''diff_threshold'', dp)])]] else []) @
     (if ''ip_sec_tunnel_status'' \<in> set l \<and> supplied ips
      then [PyDict [(''ip_sec_tunnel_status'', PyDict [(''tunnel_name'', str_val ips)])]]
      else [])"

definition check_config_of ::
  "string list \<Rightarrow> string option \<Rightarrow> string option \<Rightarrow> pyval \<Rightarrow> string option \<Rightarrow>
   string option \<Rightarrow> string option \<Rightarrow> pyval list" where
  "check_config_of l mcv cand dp ips cse arp =
     map PyStr (remove1 ''arp_entry_exists'' (remove1 ''session_exist''
        (remaining_checks l (supplied mcv) (supplied cand)))) @
     custom_directives l mcv cand dp ips @
     (if ''session_exist'' \<in> set l then session_directives cse else []) @
     (if ''arp_entry_exists'' \<in> set l \<and> supplied arp
      then [PyDict [(''arp_entry_exist'', PyDict [(''ip'', str_val arp)])]] else [])"

section \<open>Concrete devices and platform helpers for the example runs\<close>

definition standalone_firewall :: firewall where
  "standalone_firewall = \<lparr>serial = ''007051000050741'', ha_configuration = Map.empty\<rparr>"

definition ha_firewall :: firewall where
  "ha_firewall =
     \<lparr>serial = ''007051000050742'', ha_configuration = [''enabled'' \<mapsto> ''yes'']\<rparr>"

text \<open>
  Modelled from the spec: \<^verbatim>\<open>is_ip_valid\<close> is a helper of the platform and not under
  \<^verbatim>\<open>src/\<close>; the specification asks for ``a syntactically valid IPv4 address'', taken
  here as four dot-separated fields, each a non-empty string of decimal digits with a
  value of at most 255.
\<close>

definition digit_of :: "char \<Rightarrow> nat option" where
  "digit_of c = map_of (zip ''0123456789'' [0 ..< 10]) c"

fun decimal :: "nat \<Rightarrow> string \<Rightarrow> nat option" where
  "decimal acc [] = Some acc"
| "decimal acc (c # cs) =
     (case digit_of c of None \<Rightarrow> None | Some d \<Rightarrow> decimal (10 * acc + d) cs)"

definition octet :: "string \<Rightarrow> bool" where
  "octet x = (x \<noteq> [] \<and> (case decimal 0 x of None \<Rightarrow> False | Some n \<Rightarrow> n \<le> 255))"

definition is_ipv4 :: "string \<Rightarrow> bool" where
  "is_ipv4 s = (let a = split_on CHR ''.'' s in length a = 4 \<and> list_all octet a)"

text \<open>
  Stand-ins for \<^verbatim>\<open>argToList\<close> (a comma-separated string, nothing for an absent or empty
  one) and \<^verbatim>\<open>arg_to_number\<close> (nothing for an absent or empty argument, the number
  of a digit string, a \<^verbatim>\<open>ValueError\<close> otherwise), and a Panorama that manages
  standalone firewalls.
\<close>

definition comma_list :: "string option \<Rightarrow> string list" where
  "comma_list arg =
     (case arg of None \<Rightarrow> [] | Some s \<Rightarrow> if s = [] then [] else split_on (CHR 0x2C) s)"

definition decimal_number :: "string option \<Rightarrow> error + int option" where
  "decimal_number arg =
     (case arg of
        None \<Rightarrow> Inr None
      | Some s \<Rightarrow>
          if s = [] then Inr None
          else (case decimal 0 s of
                  None \<Rightarrow> Inl (ValueError (''Invalid number: '' @ s))
                | Some n \<Rightarrow> Inr (Some (int n))))"


definition standalone_panorama :: "string \<Rightarrow> firewall" where
  "standalone_panorama sn = \<lparr>serial = sn, ha_configuration = Map.empty\<rparr>"

section \<open>Lists and counting\<close>

lemma append_when: "(if P then xs @ [a] else xs) = xs @ (if P then [a] else [])"
  by simp

lemma filter_Cons_append: "filter P (x # xs) = (if P x then [x] else []) @ filter P xs"
  by simp

lemma map_when: "map f (if P then [a] else []) = (if P then [f a] else [])"
  by simp

lemma length_three: "length xs = 3 \<Longrightarrow> \<exists>a b c. xs = [a, b, c]"
  by (cases xs; simp; rename_tac y ys; case_tac ys; simp; rename_tac z zs; case_tac zs; simp)

lemma count_list_pos: "x \<in> set xs \<longleftrightarrow> 0 < count_list xs x"
  by (induction xs) auto

lemma count_list_remove1_other: "x \<noteq> y \<Longrightarrow> count_list (remove1 y xs) x = count_list xs x"
  by (induction xs) auto

lemma count_list_remove1_same: "count_list (remove1 x xs) x = count_list xs x - 1"
  by (induction xs) auto

lemma count_list_differs: "count_list xs x \<noteq> count_list ys x \<Longrightarrow> xs \<noteq> ys"
  by auto

lemma count_list_bare: "count_list (map PyStr xs) (PyStr x) = count_list xs x"
  by (induction xs) auto

lemma count_list_when_dict: "count_list (if b then [PyDict d] else []) (PyStr x) = 0"
  by simp

lemma count_named_append: "count_named n (xs @ ys) = count_named n xs + count_named n ys"
  by (simp add: count_named_def)

lemma count_named_bare: "count_named n (map PyStr xs) = count_list xs n"
  by (induction xs) (auto simp: count_named_def)

lemma count_named_when:
  "count_named n (if b then [PyDict [(k, v)]] else []) = (if b \<and> k = n then 1 else 0)"
  by (simp add: count_named_def)

lemma count_named_Nil: "count_named n [] = 0"
  by (simp add: count_named_def)

lemma dict_in_when:
  "PyDict [(k, v)] \<in> set (if b then [PyDict [(k', v')]] else []) \<longleftrightarrow> b \<and> k = k' \<and> v = v'"
  by auto

lemma filter_named_map:
  "distinct xs \<Longrightarrow> (\<forall>i\<in>set xs. directive_name (f i) = Some i) \<Longrightarrow>
   filter (\<lambda>d. directive_name d = Some j) (map f (filter M xs)) =
     (if j \<in> set xs \<and> M j then [f j] else [])"
  by (induction xs) auto

lemma names_map:
  "(\<forall>i\<in>set xs. directive_name (f i) = Some i) \<Longrightarrow>
   map directive_name (map f (filter M xs)) = map Some (filter M xs)"
  by (induction xs) auto

section \<open>The comparison list in closed form\<close>

lemma session_stats_block:
  "(if M then (case (if isinstance_int t then py_gt t 0 else Inr False) of
                 Inl e \<Rightarrow> Inl e
               | Inr positive \<Rightarrow>
                   if positive
                   then Inr (xs @ [session_stats_comparison t])
                   else Inr (xs @ [session_stats_comparison (PyInt 10)]))
    else Inr xs)
   = Inr (xs @ (if M then [session_stats_comparison (threshold_or_default t)] else []))"
  by (cases t) auto

lemma comparison_directive_simps:
  "comparison_directive T ''nics'' =
     PyDict [(''nics'', PyDict [(''count_change_threshold'', PyInt 10)])]"
  "comparison_directive T ''routes'' =
     PyDict [(''routes'',
       PyDict [(''properties'', PyList [PyStr ''!flags'', PyStr ''!age'']),
               (''count_change_threshold'', PyInt 10)])]"
  "comparison_directive T ''license'' =
     PyDict [(''license'',
       PyDict [(''properties'',
         PyList [PyStr ''!serial'', PyStr ''!issued'', PyStr ''!authcode''])])]"
  "comparison_directive T ''arp_table'' =
     PyDict [(''arp_table'',
       PyDict [(''properties'', PyList [PyStr ''!ttl'']),
               (''count_change_threshold'', PyInt 10)])]"
  "comparison_directive T ''content_version'' = PyStr ''content_version''"
  "comparison_directive T ''session_stats'' = session_stats_comparison T"
  "comparison_directive T ''ip_sec_tunnels'' =
     PyDict [(''ip_sec_tunnels'', PyDict [(''properties'', PyList [PyStr ''state''])])]"
  "comparison_directive T ''bgp_peers'' =
     PyDict [(''bgp_peers'', PyDict [(''properties'', PyList [PyStr ''status''])])]"
  by (simp_all add: comparison_directive_def session_stats_comparison_def)

text \<open>
  The source's chain of \<^verbatim>\<open>if name in snapshot_list: snapshot_comparisons.append(...)\<close>
  computes the table of the specification over the identifiers present, in the order of
  the chain.
\<close>

lemma compare_snapshots_closed:
  "compare_snapshots l r sl t =
     Inr (map (comparison_directive (threshold_or_default t))
            (filter (\<lambda>i. i \<in> set (snapshot_list_or_default sl)) canonical_order))"
  unfolding compare_snapshots_def append_when session_stats_block
  unfolding Let_def canonical_order_def filter_Cons_append
  by (simp only: sum.case map_append map_when filter.simps append_Nil append_Nil2 append_assoc
        comparison_directive_simps)

lemma distinct_canonical_order: "distinct canonical_order"
  by (simp add: canonical_order_def)

lemma directive_name_comparison:
  "\<forall>i\<in>set canonical_order. directive_name (comparison_directive T i) = Some i"
  by (auto simp: canonical_order_def comparison_directive_simps session_stats_comparison_def)

lemma filter_named_comparison:
  "filter (\<lambda>d. directive_name d = Some j)
     (map (comparison_directive T) (filter M canonical_order)) =
     (if j \<in> set canonical_order \<and> M j then [comparison_directive T j] else [])"
  using distinct_canonical_order directive_name_comparison by (rule filter_named_map)

section \<open>The readiness directive list in closed form\<close>

lemma planes_guard:
  "(if isinstance_int d then py_ge d 0 else Inr False) = Inr (is_nonneg_integer d)"
  by (cases d) auto

lemma content_version_step_eq:
  "content_version_step m (cl, cc) =
     (if supplied m then remove1 ''content_version'' cl else cl,
      cc @ (if ''content_version'' \<in> set cl \<and> supplied m
            then [PyDict [(''content_version'', PyDict [(''version'', str_val m)])]] else []))"
  by (simp add: content_version_step_def remove1_idem)

lemma free_disk_space_step_eq:
  "free_disk_space_step c (cl, cc) =
     (cl @ (if supplied c then [] else [''free_disk_space'']),
      cc @ (if supplied c
            then [PyDict [(''free_disk_space'', PyDict [(''image_version'', str_val c)])]]
            else []))"
  by (simp add: free_disk_space_step_def)

lemma planes_clock_sync_step_eq:
  "planes_clock_sync_step d (cl, cc) =
     Inr (remove1 ''planes_clock_sync'' cl,
          cc @ (if ''planes_clock_sync'' \<in> set cl \<and> is_nonneg_integer d
                then [PyDict [(''planes_clock_sync'', PyDict [(''diff_threshold'', d)])]]
                else []))"
  by (simp add: planes_clock_sync_step_def planes_guard remove1_idem)

lemma ip_sec_tunnel_status_step_eq:
  "ip_sec_tunnel_status_step p (cl, cc) =
     (remove1 ''ip_sec_tunnel_status'' cl,
      cc @ (if ''ip_sec_tunnel_status'' \<in> set cl \<and> supplied p
            then [PyDict [(''ip_sec_tunnel_status'', PyDict [(''tunnel_name'', str_val p)])]]
            else []))"
  by (simp add: ip_sec_tunnel_status_step_def remove1_idem)

lemma arp_entry_exists_step_eq:
  "arp_entry_exists_step a (cl, cc) =
     (remove1 ''arp_entry_exists'' cl,
      cc @ (if ''arp_entry_exists'' \<in> set cl \<and> supplied a
            then [PyDict [(''arp_entry_exist'', PyDict [(''ip'', str_val a)])]] else []))"
  by (simp add: arp_entry_exists_step_def remove1_idem)

lemma parse_session_Inr:
  "split_on CHR ''/'' s = [a, b, c] \<Longrightarrow>
   parse_session s =
     Inr (PyDict [(''source'', PyStr a), (''destination'', PyStr b), (''dest_port'', PyStr c)])"
  by (simp add: parse_session_def)

lemma parse_session_Inl:
  "length (split_on CHR ''/'' s) \<noteq> 3 \<Longrightarrow> \<exists>m. parse_session s = Inl (ValueError m)"
  by (auto simp add: parse_session_def split: list.splits)

lemma session_directives_shape:
  "session_directives cse = [] \<or>
   (\<exists>v. session_directives cse = [PyDict [(''session_exist'', v)]])"
proof (cases cse)
  case None
  then show ?thesis by (simp add: session_directives_def)
next
  case (Some s)
  show ?thesis
  proof (cases "length (split_on CHR ''/'' s) = 3")
    case True
    then obtain a b c where "split_on CHR ''/'' s = [a, b, c]" using length_three by blast
    then show ?thesis using Some by (simp add: session_directives_def)
  next
    case False
    then have "session_directives (Some s) = []"
      by (auto simp: session_directives_def split: list.splits)
    then show ?thesis using Some by simp
  qed
qed

lemma session_exist_step_eq:
  "session_exist_step cse (cl, cc) =
     (if ''session_exist'' \<in> set cl \<and> session_malformed cse
      then Inl (session_error (the cse))
      else Inr (remove1 ''session_exist'' cl,
                cc @ (if ''session_exist'' \<in> set cl then session_directives cse else [])))"
proof (cases cse)
  case None
  then show ?thesis
    by (simp add: session_exist_step_def session_malformed_def session_directives_def
          remove1_idem)
next
  case (Some s)
  show ?thesis
  proof (cases "length (split_on CHR ''/'' s) = 3")
    case True
    then obtain a b c where "split_on CHR ''/'' s = [a, b, c]" using length_three by blast
    then show ?thesis using Some
      by (simp add: session_exist_step_def session_malformed_def session_directives_def
            remove1_idem parse_session_Inr)
  next
    case False
    then obtain m where "parse_session s = Inl (ValueError m)"
      using parse_session_Inl by blast
    moreover have "session_directives (Some s) = []" using False
      by (auto simp: session_directives_def split: list.splits)
    ultimately show ?thesis using Some False
      by (simp add: session_exist_step_def session_malformed_def session_directives_def
            remove1_idem)
  qed
qed

lemma run_readiness_checks_eq:
  "run_readiness_checks fw cl mcv cand dp ips cse arp =
    (let l = local_check_list fw cl;
         l4 = remaining_checks l (supplied mcv) (supplied cand);
         l6 = remove1 ''arp_entry_exists'' (remove1 ''session_exist'' l4)
     in if ''session_exist'' \<in> set l \<and> session_malformed cse
        then (caller_check_list cl l4, Inl (session_error (the cse)))
        else (caller_check_list cl l6, Inr (check_config_of l mcv cand dp ips cse arp)))"
proof -
  let ?l = "local_check_list fw cl"
  show ?thesis
    unfolding run_readiness_checks_def Let_def content_version_step_eq free_disk_space_step_eq
      planes_clock_sync_step_eq ip_sec_tunnel_status_step_eq sum.case fst_conv snd_conv
      session_exist_step_eq check_config_of_def
    by (cases "supplied mcv"; cases "supplied cand";
        cases "''session_exist'' \<in> set ?l"; cases "session_malformed cse")
       (simp_all add: arp_entry_exists_step_eq remaining_checks_def custom_directives_def
          split del: if_split)
qed

text \<open>
  The function returns unless \<^verbatim>\<open>session_exist\<close> is requested with a session string that
  is supplied and has not three fields; then it raises the session error.
\<close>

lemma run_readiness_checks_returns:
  "\<not> (''session_exist'' \<in> set (local_check_list fw cl) \<and> session_malformed cse) \<Longrightarrow>
   snd (run_readiness_checks fw cl mcv cand dp ips cse arp) =
     Inr (check_config_of (local_check_list fw cl) mcv cand dp ips cse arp)"
  by (simp add: run_readiness_checks_eq Let_def)

lemma run_readiness_checks_raises:
  "''session_exist'' \<in> set (local_check_list fw cl) \<Longrightarrow> session_malformed cse \<Longrightarrow>
   snd (run_readiness_checks fw cl mcv cand dp ips cse arp) = Inl (session_error (the cse))"
  by (simp add: run_readiness_checks_eq Let_def)

lemma run_readiness_checks_Inr:
  assumes "snd (run_readiness_checks fw cl mcv cand dp ips cse arp) = Inr out"
  shows "out = check_config_of (local_check_list fw cl) mcv cand dp ips cse arp"
proof (cases "''session_exist'' \<in> set (local_check_list fw cl) \<and> session_malformed cse")
  case True
  then show ?thesis
    using assms run_readiness_checks_raises [of fw cl cse mcv cand dp ips arp] by simp
next
  case False
  then show ?thesis
    using assms run_readiness_checks_returns [of fw cl cse mcv cand dp ips arp] by simp
qed

lemma local_check_list_Some: "x \<in> set xs \<Longrightarrow> local_check_list fw (Some xs) = xs"
  by (cases xs) (simp_all add: local_check_list_def)

lemma local_check_list_default:
  "not_list cl \<Longrightarrow> local_check_list fw cl = default_check_list fw"
  by (cases cl) (simp_all add: local_check_list_def)


lemma default_check_list_no_session: "''session_exist'' \<notin> set (default_check_list fw)"
  by (simp add: default_check_list_def Let_def)

section \<open>What the output contains\<close>

lemma count_named_session:
  "count_named n (session_directives cse) =
     (if n = ''session_exist'' then length (session_directives cse) else 0)"
  using session_directives_shape [of cse] by (auto simp: count_named_def)

lemma count_list_session: "count_list (session_directives cse) (PyStr x) = 0"
  using session_directives_shape [of cse] by auto

lemma dict_in_session:
  "PyDict [(k, v)] \<in> set (session_directives cse) \<Longrightarrow> k = ''session_exist''"
  using session_directives_shape [of cse] by auto

lemma count_list_custom: "count_list (custom_directives l mcv cand dp ips) (PyStr x) = 0"
  unfolding custom_directives_def count_list_append count_list_when_dict by simp

lemma count_named_custom:
  "count_named n (custom_directives l mcv cand dp ips) =
     (if ''content_version'' \<in> set l \<and> supplied mcv \<and> ''content_version'' = n then 1 else 0) +
     (if supplied cand \<and> ''free_disk_space'' = n then 1 else 0) +
     (if ''planes_clock_sync'' \<in> set l \<and> is_nonneg_integer dp \<and> ''planes_clock_sync'' = n
      then 1 else 0) +
     (if ''ip_sec_tunnel_status'' \<in> set l \<and> supplied ips \<and> ''ip_sec_tunnel_status'' = n
      then 1 else 0)"
  unfolding custom_directives_def count_named_append count_named_when
  by (simp add: conj_assoc)

lemma dict_in_custom:
  "PyDict [(k, v)] \<in> set (custom_directives l mcv cand dp ips) \<longleftrightarrow>
     (''content_version'' \<in> set l \<and> supplied mcv \<and> k = ''content_version'' \<and>
        v = PyDict [(''version'', str_val mcv)]) \<or>
     (supplied cand \<and> k = ''free_disk_space'' \<and>
        v = PyDict [(''image_version'', str_val cand)]) \<or>
     (''planes_clock_sync'' \<in> set l \<and> is_nonneg_integer dp \<and> k = ''planes_clock_sync'' \<and>
        v = PyDict [(''diff_threshold'', dp)]) \<or>
     (''ip_sec_tunnel_status'' \<in> set l \<and> supplied ips \<and> k = ''ip_sec_tunnel_status'' \<and>
        v = PyDict [(''tunnel_name'', str_val ips)])"
  unfolding custom_directives_def set_append Un_iff dict_in_when by (simp add: conj_assoc)

lemma count_bare_config:
  "count_list (check_config_of l mcv cand dp ips cse arp) (PyStr x) =
   count_list (remove1 ''arp_entry_exists'' (remove1 ''session_exist''
        (remaining_checks l (supplied mcv) (supplied cand)))) x"
  unfolding check_config_of_def count_list_append count_list_bare count_list_custom
  by (simp add: count_list_session)

lemma count_named_config:
  "n \<noteq> ''session_exist'' \<Longrightarrow> n \<noteq> ''arp_entry_exist'' \<Longrightarrow>
   count_named n (check_config_of l mcv cand dp ips cse arp) =
   count_list (remove1 ''arp_entry_exists'' (remove1 ''session_exist''
        (remaining_checks l (supplied mcv) (supplied cand)))) n +
   count_named n (custom_directives l mcv cand dp ips)"
  unfolding check_config_of_def count_named_append count_named_bare count_named_when
  by (simp add: count_named_session count_named_Nil)

lemma dict_in_config:
  "PyDict [(k, v)] \<in> set (check_config_of l mcv cand dp ips cse arp) \<longleftrightarrow>
     PyDict [(k, v)] \<in> set (custom_directives l mcv cand dp ips) \<or>
     (''session_exist'' \<in> set l \<and> PyDict [(k, v)] \<in> set (session_directives cse)) \<or>
     (''arp_entry_exists'' \<in> set l \<and> supplied arp \<and> k = ''arp_entry_exist'' \<and>
        v = PyDict [(''ip'', str_val arp)])"
  unfolding check_config_of_def set_append Un_iff dict_in_when
  by auto

lemma count_remaining_content_version:
  "count_list (remove1 ''arp_entry_exists'' (remove1 ''session_exist'' (remaining_checks l m c)))
     ''content_version'' =
   (if m then count_list l ''content_version'' - 1 else count_list l ''content_version'')"
  by (simp add: remaining_checks_def count_list_remove1_other count_list_remove1_same)

lemma count_remaining_planes_clock_sync:
  "count_list (remove1 ''arp_entry_exists'' (remove1 ''session_exist'' (remaining_checks l m c)))
     ''planes_clock_sync'' = count_list l ''planes_clock_sync'' - 1"
  by (simp add: remaining_checks_def count_list_remove1_other count_list_remove1_same)

lemma count_remaining_free_disk_space:
  "count_list (remove1 ''arp_entry_exists'' (remove1 ''session_exist'' (remaining_checks l m c)))
     ''free_disk_space'' =
   (if c then count_list l ''free_disk_space'' else Suc (count_list l ''free_disk_space''))"
  by (simp add: remaining_checks_def count_list_remove1_other)

lemma in_rename_check:
  "x \<noteq> old \<Longrightarrow>
   x \<in> set (rename_check old new cl) \<longleftrightarrow> x \<in> set cl \<or> (x = new \<and> old \<in> set cl)"
  by (auto simp: rename_check_def)

section \<open>Readiness checks: the claims\<close>

text \<open>
  C1 (as amended).  For every check list that contains \<^verbatim>\<open>content_version\<close> and every
  call of \<^verbatim>\<open>run_readiness_checks\<close> that returns: if \<^verbatim>\<open>min_content_version\<close> is
  supplied, the output contains the parameterized directive
  \<^verbatim>\<open>{content_version: {version: min_content_version}}\<close> and one bare occurrence of the
  identifier (the first) has been removed, so that a check list naming it once has no
  bare \<^verbatim>\<open>content_version\<close> left; if \<^verbatim>\<open>min_content_version\<close> is not supplied, every bare
  \<^verbatim>\<open>content_version\<close> of the check list is still in the output (the evaluator then
  checks for the latest content version) and the output has no parameterized
  \<^verbatim>\<open>content_version\<close> directive.
\<close>

theorem content_version_promotion:
  "''content_version'' \<in> set cl \<Longrightarrow>
   snd (run_readiness_checks fw (Some cl) mcv cand dp ips cse arp) = Inr out \<Longrightarrow>
   (supplied mcv \<longrightarrow>
      PyDict [(''content_version'', PyDict [(''version'', str_val mcv)])] \<in> set out \<and>
      count_list out (PyStr ''content_version'') = count_list cl ''content_version'' - 1 \<and>
      (count_list cl ''content_version'' = 1 \<longrightarrow> PyStr ''content_version'' \<notin> set out)) \<and>
   (\<not> supplied mcv \<longrightarrow>
      PyStr ''content_version'' \<in> set out \<and>
      count_list out (PyStr ''content_version'') = count_list cl ''content_version'' \<and>
      (\<forall>v. PyDict [(''content_version'', v)] \<notin> set out))"
proof -
  assume mem: "''content_version'' \<in> set cl"
    and ret: "snd (run_readiness_checks fw (Some cl) mcv cand dp ips cse arp) = Inr out"
  have l: "local_check_list fw (Some cl) = cl" using mem by (rule local_check_list_Some)
  have out: "out = check_config_of cl mcv cand dp ips cse arp"
    using run_readiness_checks_Inr [OF ret] l by simp
  have c: "count_list out (PyStr ''content_version'') =
      (if supplied mcv then count_list cl ''content_version'' - 1
       else count_list cl ''content_version'')"
    unfolding out count_bare_config count_remaining_content_version ..
  have pos: "0 < count_list cl ''content_version''"
    using mem by (simp add: count_list_pos)
  show ?thesis
  proof (cases "supplied mcv")
    case True
    have "PyDict [(''content_version'', PyDict [(''version'', str_val mcv)])] \<in> set out"
      using True mem by (simp add: out dict_in_config dict_in_custom)
    moreover have "PyStr ''content_version'' \<notin> set out" if "count_list cl ''content_version'' = 1"
      using c True that by (simp add: count_list_pos)
    ultimately show ?thesis using c True by simp
  next
    case False
    have "PyStr ''content_version'' \<in> set out"
      using c pos False by (simp add: count_list_pos)
    moreover have "\<forall>v. PyDict [(''content_version'', v)] \<notin> set out"
      using False dict_in_session [of "''content_version''" _ cse]
      by (auto simp: out dict_in_config dict_in_custom)
    ultimately show ?thesis using c False by simp
  qed
qed

text \<open>Two runs on the check list \<^verbatim>\<open>[panorama, content_version]\<close>, with and without the parameter.\<close>

theorem content_version_promotion_witness:
  "''content_version'' \<in> set [''panorama'', ''content_version''] \<and>
   snd (run_readiness_checks standalone_firewall (Some [''panorama'', ''content_version''])
          (Some ''8421-7321'') None PyNone None None None) =
     Inr [PyStr ''panorama'', PyStr ''free_disk_space'',
          PyDict [(''content_version'', PyDict [(''version'', PyStr ''8421-7321'')])]] \<and>
   snd (run_readiness_checks standalone_firewall (Some [''panorama'', ''content_version''])
          None None PyNone None None None) =
     Inr [PyStr ''panorama'', PyStr ''content_version'', PyStr ''free_disk_space''] \<and>
   count_list [PyStr ''panorama'', PyStr ''free_disk_space'',
          PyDict [(''content_version'', PyDict [(''version'', PyStr ''8421-7321'')])]]
      (PyStr ''content_version'') = 0 \<and>
   count_list [PyStr ''panorama'', PyStr ''content_version'', PyStr ''free_disk_space'']
      (PyStr ''content_version'') = 1"
proof -
  have m: "''content_version'' \<in> set [''panorama'', ''content_version'']" by simp
  have a: "snd (run_readiness_checks standalone_firewall (Some [''panorama'', ''content_version''])
          (Some ''8421-7321'') None PyNone None None None) =
     Inr [PyStr ''panorama'', PyStr ''free_disk_space'',
          PyDict [(''content_version'', PyDict [(''version'', PyStr ''8421-7321'')])]]"
    by code_simp
  have b: "snd (run_readiness_checks standalone_firewall (Some [''panorama'', ''content_version''])
          None None PyNone None None None) =
     Inr [PyStr ''panorama'', PyStr ''content_version'', PyStr ''free_disk_space'']"
    by code_simp
  show ?thesis
    using m a b content_version_promotion [OF m a] content_version_promotion [OF m b]
    by simp
qed

text \<open>
  The claim as stated fails: without \<^verbatim>\<open>min_content_version\<close> the bare identifier is
  kept, not dropped; and with the parameter a second \<^verbatim>\<open>content_version\<close> of the check
  list survives as a bare identifier.
\<close>

theorem content_version_not_dropped:
  "snd (run_readiness_checks standalone_firewall (Some [''content_version''])
          None None PyNone None None None) =
     Inr [PyStr ''content_version'', PyStr ''free_disk_space''] \<and>
   snd (run_readiness_checks standalone_firewall (Some [''content_version'', ''content_version''])
          (Some ''8421-7321'') None PyNone None None None) =
     Inr [PyStr ''content_version'', PyStr ''free_disk_space'',
          PyDict [(''content_version'', PyDict [(''version'', PyStr ''8421-7321'')])]]"
  by code_simp

text \<open>
  C2 (as amended).  Every call of \<^verbatim>\<open>run_readiness_checks\<close> that returns adds one
  \<^verbatim>\<open>free_disk_space\<close> directive of its own, which the caller cannot suppress: the
  parameterized form \<^verbatim>\<open>{free_disk_space: {image_version: candidate_version}}\<close> when
  \<^verbatim>\<open>candidate_version\<close> is supplied, the bare identifier otherwise.  Every
  \<^verbatim>\<open>free_disk_space\<close> of the caller's check list is passed through beside it, so the
  output holds one more \<^verbatim>\<open>free_disk_space\<close> directive than the check list in use names;
  it holds exactly one when the check list does not name it, as with the default list.
\<close>

theorem free_disk_space_always_added:
  "snd (run_readiness_checks fw cl mcv cand dp ips cse arp) = Inr out \<Longrightarrow>
   count_named ''free_disk_space'' out =
     Suc (count_list (local_check_list fw cl) ''free_disk_space'') \<and>
   (supplied cand \<longrightarrow>
      PyDict [(''free_disk_space'', PyDict [(''image_version'', str_val cand)])] \<in> set out \<and>
      count_list out (PyStr ''free_disk_space'') =
        count_list (local_check_list fw cl) ''free_disk_space'') \<and>
   (\<not> supplied cand \<longrightarrow>
      count_list out (PyStr ''free_disk_space'') =
        Suc (count_list (local_check_list fw cl) ''free_disk_space'')) \<and>
   (''free_disk_space'' \<notin> set (local_check_list fw cl) \<longrightarrow>
      count_named ''free_disk_space'' out = 1) \<and>
   (not_list cl \<longrightarrow> count_named ''free_disk_space'' out = 1)"
proof -
  assume ret: "snd (run_readiness_checks fw cl mcv cand dp ips cse arp) = Inr out"
  let ?l = "local_check_list fw cl"
  have out: "out = check_config_of ?l mcv cand dp ips cse arp"
    using run_readiness_checks_Inr [OF ret] .
  have n: "count_named ''free_disk_space'' out = Suc (count_list ?l ''free_disk_space'')"
    unfolding out
    by (simp add: count_named_config count_named_custom remaining_checks_def
          count_list_remove1_other)
  have b: "count_list out (PyStr ''free_disk_space'') =
      (if supplied cand then count_list ?l ''free_disk_space''
       else Suc (count_list ?l ''free_disk_space''))"
    unfolding out count_bare_config count_remaining_free_disk_space ..
  have p: "PyDict [(''free_disk_space'', PyDict [(''image_version'', str_val cand)])] \<in> set out"
    if "supplied cand"
    using that by (simp add: out dict_in_config dict_in_custom)
  have z: "count_list ?l ''free_disk_space'' = 0" if "''free_disk_space'' \<notin> set ?l"
    using that by (simp add: count_list_pos)
  have d: "''free_disk_space'' \<notin> set ?l" if "not_list cl"
    using that by (simp add: local_check_list_default default_check_list_def Let_def)
  show ?thesis using n b p z d by simp
qed

text \<open>The default list with and without a candidate version.\<close>

theorem free_disk_space_always_added_witness:
  "snd (run_readiness_checks standalone_firewall None None (Some ''10.2.3'') PyNone
          None None None) =
     Inr [PyStr ''panorama'', PyStr ''ntp_sync'', PyStr ''candidate_config'',
          PyStr ''active_support'',
          PyDict [(''free_disk_space'', PyDict [(''image_version'', PyStr ''10.2.3'')])]] \<and>
   snd (run_readiness_checks standalone_firewall None None None PyNone None None None) =
     Inr [PyStr ''panorama'', PyStr ''ntp_sync'', PyStr ''candidate_config'',
          PyStr ''active_support'', PyStr ''free_disk_space''] \<and>
   count_named ''free_disk_space''
     [PyStr ''panorama'', PyStr ''ntp_sync'', PyStr ''candidate_config'',
      PyStr ''active_support'',
      PyDict [(''free_disk_space'', PyDict [(''image_version'', PyStr ''10.2.3'')])]] = 1 \<and>
   count_named ''free_disk_space''
     [PyStr ''panorama'', PyStr ''ntp_sync'', PyStr ''candidate_config'',
      PyStr ''active_support'', PyStr ''free_disk_space''] = 1"
proof -
  have a: "snd (run_readiness_checks standalone_firewall None None (Some ''10.2.3'') PyNone
          None None None) =
     Inr [PyStr ''panorama'', PyStr ''ntp_sync'', PyStr ''candidate_config'',
          PyStr ''active_support'',
          PyDict [(''free_disk_space'', PyDict [(''image_version'', PyStr ''10.2.3'')])]]"
    by code_simp
  have b: "snd (run_readiness_checks standalone_firewall None None None PyNone None None None) =
     Inr [PyStr ''panorama'', PyStr ''ntp_sync'', PyStr ''candidate_config'',
          PyStr ''active_support'', PyStr ''free_disk_space'']"
    by code_simp
  show ?thesis
    using a b free_disk_space_always_added [OF a] free_disk_space_always_added [OF b]
    by simp
qed

text \<open>
  The claim as stated fails when the caller's check list names \<^verbatim>\<open>free_disk_space\<close>:
  without a candidate version the output has the bare identifier twice, with one it has
  the bare identifier and the parameterized directive.
\<close>

theorem free_disk_space_duplicated:
  "snd (run_readiness_checks standalone_firewall (Some [''free_disk_space''])
          None None PyNone None None None) =
     Inr [PyStr ''free_disk_space'', PyStr ''free_disk_space''] \<and>
   snd (run_readiness_checks standalone_firewall (Some [''free_disk_space''])
          None (Some ''10.2.3'') PyNone None None None) =
     Inr [PyStr ''free_disk_space'',
          PyDict [(''free_disk_space'', PyDict [(''image_version'', PyStr ''10.2.3'')])]]"
  by code_simp

text \<open>
  C3 (as amended).  For an empty check list (\<^verbatim>\<open>None\<close> or \<^verbatim>\<open>[]\<close>) the default list
  is used, whatever the other parameters are.  When \<^verbatim>\<open>candidate_version\<close> is not
  supplied the output is
  \<^verbatim>\<open>[panorama, ntp_sync, candidate_config, active_support, free_disk_space]\<close>, all bare
  and in that order, if HA is disabled, and has \<^verbatim>\<open>ha\<close> between \<^verbatim>\<open>active_support\<close> and
  \<^verbatim>\<open>free_disk_space\<close> if HA is enabled.  When \<^verbatim>\<open>candidate_version\<close> is supplied the
  last element is the parameterized directive
  \<^verbatim>\<open>{free_disk_space: {image_version: candidate_version}}\<close> instead of the bare one.
\<close>

theorem default_check_list_output:
  "not_list cl \<Longrightarrow>
   (\<not> supplied cand \<and> \<not> ha_enabled fw \<longrightarrow>
      snd (run_readiness_checks fw cl mcv cand dp ips cse arp) =
        Inr [PyStr ''panorama'', PyStr ''ntp_sync'', PyStr ''candidate_config'',
             PyStr ''active_support'', PyStr ''free_disk_space'']) \<and>
   (\<not> supplied cand \<and> ha_enabled fw \<longrightarrow>
      snd (run_readiness_checks fw cl mcv cand dp ips cse arp) =
        Inr [PyStr ''panorama'', PyStr ''ntp_sync'', PyStr ''candidate_config'',
             PyStr ''active_support'', PyStr ''ha'', PyStr ''free_disk_space'']) \<and>
   (supplied cand \<and> \<not> ha_enabled fw \<longrightarrow>
      snd (run_readiness_checks fw cl mcv cand dp ips cse arp) =
        Inr [PyStr ''panorama'', PyStr ''ntp_sync'', PyStr ''candidate_config'',
             PyStr ''active_support'',
             PyDict [(''free_disk_space'', PyDict [(''image_version'', str_val cand)])]]) \<and>
   (supplied cand \<and> ha_enabled fw \<longrightarrow>
      snd (run_readiness_checks fw cl mcv cand dp ips cse arp) =
        Inr [PyStr ''panorama'', PyStr ''ntp_sync'', PyStr ''candidate_config'',
             PyStr ''active_support'', PyStr ''ha'',
             PyDict [(''free_disk_space'', PyDict [(''image_version'', str_val cand)])]])"
proof -
  assume e: "not_list cl"
  have l: "local_check_list fw cl = default_check_list fw"
    using e by (rule local_check_list_default)
  have "snd (run_readiness_checks fw cl mcv cand dp ips cse arp) =
     Inr (check_config_of (default_check_list fw) mcv cand dp ips cse arp)"
    using run_readiness_checks_returns [of fw cl cse mcv cand dp ips arp]
      default_check_list_no_session l by simp
  also have "check_config_of (default_check_list fw) mcv cand dp ips cse arp =
     map PyStr ([''panorama'', ''ntp_sync'', ''candidate_config'', ''active_support''] @
                (if ha_enabled fw then [''ha''] else [])) @
     [if supplied cand
      then PyDict [(''free_disk_space'', PyDict [(''image_version'', str_val cand)])]
      else PyStr ''free_disk_space'']"
    by (simp add: check_config_of_def default_check_list_def Let_def remaining_checks_def
          custom_directives_def)
  finally show ?thesis by simp
qed

text \<open>An empty list on a standalone firewall and no list on a firewall in an HA pair.\<close>

theorem default_check_list_output_witness:
  "not_list (Some ([] :: string list)) \<and> not_list (None :: string list option) \<and>
   \<not> supplied None \<and> \<not> ha_enabled standalone_firewall \<and> ha_enabled ha_firewall \<and>
   snd (run_readiness_checks standalone_firewall (Some []) None None PyNone None None None) =
     Inr [PyStr ''panorama'', PyStr ''ntp_sync'', PyStr ''candidate_config'',
          PyStr ''active_support'', PyStr ''free_disk_space''] \<and>
   snd (run_readiness_checks ha_firewall None None None PyNone None None None) =
     Inr [PyStr ''panorama'', PyStr ''ntp_sync'', PyStr ''candidate_config'',
          PyStr ''active_support'', PyStr ''ha'', PyStr ''free_disk_space'']"
proof -
  have e: "not_list (Some ([] :: string list))" and n: "not_list (None :: string list option)"
    by simp_all
  have s: "\<not> ha_enabled standalone_firewall" and h: "ha_enabled ha_firewall"
    by (simp_all add: ha_enabled_def standalone_firewall_def ha_firewall_def)
  show ?thesis
    using e n s h
      default_check_list_output [OF e, of None standalone_firewall None PyNone None None None]
      default_check_list_output [OF n, of None ha_firewall None PyNone None None None]
    by simp
qed

text \<open>
  The claim as stated fails when a candidate version is supplied: the last element of the
  output is then a parameterized directive, not the bare identifier.
\<close>

theorem default_output_with_candidate_version:
  "\<not> ha_enabled standalone_firewall \<and>
   snd (run_readiness_checks standalone_firewall (Some []) None (Some ''10.2.3'') PyNone
          None None None) =
     Inr [PyStr ''panorama'', PyStr ''ntp_sync'', PyStr ''candidate_config'',
          PyStr ''active_support'',
          PyDict [(''free_disk_space'', PyDict [(''image_version'', PyStr ''10.2.3'')])]]"
  by code_simp

text \<open>
  C8 (as amended).  For every check list that contains \<^verbatim>\<open>planes_clock_sync\<close> and every
  call of \<^verbatim>\<open>run_readiness_checks\<close> that returns: one bare occurrence of the identifier
  (the first) is removed whatever \<^verbatim>\<open>dp_mp_clock_diff\<close> is, so that a check list naming
  it once has no bare \<^verbatim>\<open>planes_clock_sync\<close> left in the output; the parameterized
  directive \<^verbatim>\<open>{planes_clock_sync: {diff_threshold: dp_mp_clock_diff}}\<close> is in the
  output if and only if \<^verbatim>\<open>dp_mp_clock_diff\<close> is a non-negative integer, and otherwise
  the output has no parameterized \<^verbatim>\<open>planes_clock_sync\<close> directive at all.
\<close>

theorem planes_clock_sync_promotion:
  "''planes_clock_sync'' \<in> set cl \<Longrightarrow>
   snd (run_readiness_checks fw (Some cl) mcv cand dp ips cse arp) = Inr out \<Longrightarrow>
   count_list out (PyStr ''planes_clock_sync'') = count_list cl ''planes_clock_sync'' - 1 \<and>
   (count_list cl ''planes_clock_sync'' = 1 \<longrightarrow> PyStr ''planes_clock_sync'' \<notin> set out) \<and>
   (PyDict [(''planes_clock_sync'', PyDict [(''diff_threshold'', dp)])] \<in> set out
      \<longleftrightarrow> is_nonneg_integer dp) \<and>
   (\<not> is_nonneg_integer dp \<longrightarrow> (\<forall>v. PyDict [(''planes_clock_sync'', v)] \<notin> set out))"
proof -
  assume mem: "''planes_clock_sync'' \<in> set cl"
    and ret: "snd (run_readiness_checks fw (Some cl) mcv cand dp ips cse arp) = Inr out"
  have l: "local_check_list fw (Some cl) = cl" using mem by (rule local_check_list_Some)
  have out: "out = check_config_of cl mcv cand dp ips cse arp"
    using run_readiness_checks_Inr [OF ret] l by simp
  have c: "count_list out (PyStr ''planes_clock_sync'') = count_list cl ''planes_clock_sync'' - 1"
    unfolding out count_bare_config count_remaining_planes_clock_sync ..
  have g: "PyStr ''planes_clock_sync'' \<notin> set out" if "count_list cl ''planes_clock_sync'' = 1"
    using c that by (simp add: count_list_pos)
  have p: "PyDict [(''planes_clock_sync'', PyDict [(''diff_threshold'', dp)])] \<in> set out
           \<longleftrightarrow> is_nonneg_integer dp"
    using mem dict_in_session [of "''planes_clock_sync''" _ cse]
    by (auto simp: out dict_in_config dict_in_custom)
  have q: "\<forall>v. PyDict [(''planes_clock_sync'', v)] \<notin> set out" if "\<not> is_nonneg_integer dp"
    using that dict_in_session [of "''planes_clock_sync''" _ cse]
    by (auto simp: out dict_in_config dict_in_custom)
  show ?thesis using c g p q by blast
qed

text \<open>A threshold of 5, a missing threshold and a negative one.\<close>

theorem planes_clock_sync_promotion_witness:
  "''planes_clock_sync'' \<in> set [''ntp_sync'', ''planes_clock_sync''] \<and>
   is_nonneg_integer (PyInt 5) \<and> \<not> is_nonneg_integer PyNone \<and>
   \<not> is_nonneg_integer (PyInt (- 1)) \<and>
   snd (run_readiness_checks standalone_firewall (Some [''ntp_sync'', ''planes_clock_sync''])
          None None (PyInt 5) None None None) =
     Inr [PyStr ''ntp_sync'', PyStr ''free_disk_space'',
          PyDict [(''planes_clock_sync'', PyDict [(''diff_threshold'', PyInt 5)])]] \<and>
   snd (run_readiness_checks standalone_firewall (Some [''ntp_sync'', ''planes_clock_sync''])
          None None PyNone None None None) =
     Inr [PyStr ''ntp_sync'', PyStr ''free_disk_space''] \<and>
   snd (run_readiness_checks standalone_firewall (Some [''ntp_sync'', ''planes_clock_sync''])
          None None (PyInt (- 1)) None None None) =
     Inr [PyStr ''ntp_sync'', PyStr ''free_disk_space'']"
proof -
  have m: "''planes_clock_sync'' \<in> set [''ntp_sync'', ''planes_clock_sync'']" by simp
  have a: "snd (run_readiness_checks standalone_firewall
          (Some [''ntp_sync'', ''planes_clock_sync'']) None None (PyInt 5) None None None) =
     Inr [PyStr ''ntp_sync'', PyStr ''free_disk_space'',
          PyDict [(''planes_clock_sync'', PyDict [(''diff_threshold'', PyInt 5)])]]"
    by code_simp
  have b: "snd (run_readiness_checks standalone_firewall
          (Some [''ntp_sync'', ''planes_clock_sync'']) None None PyNone None None None) =
     Inr [PyStr ''ntp_sync'', PyStr ''free_disk_space'']"
    by code_simp
  have c: "snd (run_readiness_checks standalone_firewall
          (Some [''ntp_sync'', ''planes_clock_sync'']) None None (PyInt (- 1)) None None None) =
     Inr [PyStr ''ntp_sync'', PyStr ''free_disk_space'']"
    by code_simp
  show ?thesis
    using m a b c planes_clock_sync_promotion [OF m a] planes_clock_sync_promotion [OF m b]
      planes_clock_sync_promotion [OF m c]
    by simp
qed

text \<open>
  The claim as stated fails on a check list that names the identifier twice, as the
  command builds it from \<^verbatim>\<open>planes_clock_sync,dp_mp_clock_diff\<close>: the second occurrence
  stays in the output as a bare identifier.
\<close>

theorem planes_clock_sync_duplicate_kept:
  "rename_check ''dp_mp_clock_diff'' ''planes_clock_sync''
     [''planes_clock_sync'', ''dp_mp_clock_diff''] =
     [''planes_clock_sync'', ''planes_clock_sync''] \<and>
   snd (run_readiness_checks standalone_firewall
          (Some [''planes_clock_sync'', ''planes_clock_sync''])
          None None PyNone None None None) =
     Inr [PyStr ''planes_clock_sync'', PyStr ''free_disk_space'']"
  by code_simp

section \<open>Snapshot comparisons: the claims\<close>

text \<open>
  C4.  For every snapshot list, \<^verbatim>\<open>compare_snapshots\<close> builds a comparison list (it never
  raises) in which the identifiers of the fixed set \<^verbatim>\<open>[nics, routes, license, arp_table,
  content_version, session_stats, ip_sec_tunnels, bgp_peers]\<close> that are in the (possibly
  defaulted) list have exactly one directive each, in that fixed order; every other
  identifier has none; and the result depends on the list only through the membership of
  its elements, not on their order or repetition.
\<close>

theorem compare_snapshots_canonical:
  "\<exists>out. compare_snapshots l r sl t = Inr out \<and>
      map directive_name out =
        map Some (filter (\<lambda>i. i \<in> set (snapshot_list_or_default sl)) canonical_order) \<and>
      (\<forall>i. count_named i out =
             (if i \<in> set canonical_order \<and> i \<in> set (snapshot_list_or_default sl)
              then 1 else 0)) \<and>
      (\<forall>sl'. set (snapshot_list_or_default sl') = set (snapshot_list_or_default sl) \<longrightarrow>
             compare_snapshots l r sl' t = Inr out)"
proof -
  let ?M = "\<lambda>i. i \<in> set (snapshot_list_or_default sl)"
  let ?out = "map (comparison_directive (threshold_or_default t)) (filter ?M canonical_order)"
  have 1: "compare_snapshots l r sl t = Inr ?out" by (rule compare_snapshots_closed)
  have 2: "map directive_name ?out = map Some (filter ?M canonical_order)"
    using directive_name_comparison by (rule names_map)
  have 3: "count_named i ?out = (if i \<in> set canonical_order \<and> ?M i then 1 else 0)" for i
    unfolding count_named_def filter_named_comparison by simp
  have 4: "compare_snapshots l r sl' t = Inr ?out"
    if "set (snapshot_list_or_default sl') = set (snapshot_list_or_default sl)" for sl'
    using that by (simp add: compare_snapshots_closed)
  show ?thesis using 1 2 3 4 by blast
qed

text \<open>
  Two lists with the same members in another order, one with a repetition and both with an
  identifier outside the fixed set: the same two directives.
\<close>

theorem compare_snapshots_canonical_witness:
  "set (snapshot_list_or_default (Some [''nics'', ''vpn_flows'', ''routes'', ''nics''])) =
   set (snapshot_list_or_default (Some [''routes'', ''nics'', ''vpn_flows''])) \<and>
   compare_snapshots PyNone PyNone (Some [''nics'', ''vpn_flows'', ''routes'', ''nics'']) PyNone =
   compare_snapshots PyNone PyNone (Some [''routes'', ''nics'', ''vpn_flows'']) PyNone \<and>
   map directive_name
     (projr (compare_snapshots PyNone PyNone (Some [''routes'', ''nics'', ''vpn_flows'']) PyNone)) =
   [Some ''nics'', Some ''routes'']"
proof -
  have s: "set (snapshot_list_or_default (Some [''nics'', ''vpn_flows'', ''routes'', ''nics''])) =
           set (snapshot_list_or_default (Some [''routes'', ''nics'', ''vpn_flows'']))"
    by (auto simp: snapshot_list_or_default_def)
  obtain out where
    o: "compare_snapshots PyNone PyNone (Some [''routes'', ''nics'', ''vpn_flows'']) PyNone = Inr out"
    and n: "map directive_name out =
        map Some (filter (\<lambda>i. i \<in> set (snapshot_list_or_default
                     (Some [''routes'', ''nics'', ''vpn_flows'']))) canonical_order)"
    and p: "\<forall>sl'. set (snapshot_list_or_default sl') =
                  set (snapshot_list_or_default (Some [''routes'', ''nics'', ''vpn_flows''])) \<longrightarrow>
             compare_snapshots PyNone PyNone sl' PyNone = Inr out"
    using compare_snapshots_canonical
      [of PyNone PyNone "Some [''routes'', ''nics'', ''vpn_flows'']" PyNone]
    by blast
  have "compare_snapshots PyNone PyNone (Some [''nics'', ''vpn_flows'', ''routes'', ''nics'']) PyNone
        = Inr out"
    using p s by blast
  moreover have "map directive_name out = [Some ''nics'', Some ''routes'']"
    unfolding n by (simp add: snapshot_list_or_default_def canonical_order_def)
  ultimately show ?thesis using s o by simp
qed

text \<open>
  C5.  \<^verbatim>\<open>compare_snapshots\<close> never raises, whatever \<^verbatim>\<open>session_stats_threshold\<close> is.
  Whenever \<^verbatim>\<open>session_stats\<close> is in the (possibly defaulted) list, the only directive of
  that name is \<^verbatim>\<open>{session_stats: {thresholds: [{num-max: T}, {num-tcp: T}]}}\<close>, where
  both entries hold the same \<open>T\<close>: the caller's threshold if it is a positive integer,
  and 10 if it is absent, zero, negative or not an integer (an \<^verbatim>\<open>int\<close> instance
  is meant as Python means it: \<^verbatim>\<open>True\<close> is passed on, \<^verbatim>\<open>False\<close> gives 10).
\<close>

theorem session_stats_threshold_directive:
  "(\<exists>out. compare_snapshots l r sl t = Inr out) \<and>
   (''session_stats'' \<in> set (snapshot_list_or_default sl) \<longrightarrow>
     (\<exists>out. compare_snapshots l r sl t = Inr out \<and>
        filter (\<lambda>d. directive_name d = Some ''session_stats'') out =
          [PyDict [(''session_stats'', PyDict [(''thresholds'',
             PyList [PyDict [(''num-max'', threshold_or_default t)],
                     PyDict [(''num-tcp'', threshold_or_default t)]])])]])) \<and>
   (\<forall>n. 0 < n \<longrightarrow> threshold_or_default (PyInt n) = PyInt n) \<and>
   (\<forall>n. n \<le> 0 \<longrightarrow> threshold_or_default (PyInt n) = PyInt 10) \<and>
   threshold_or_default PyNone = PyInt 10 \<and>
   (\<forall>s. threshold_or_default (PyStr s) = PyInt 10)"
proof -
  let ?M = "\<lambda>i. i \<in> set (snapshot_list_or_default sl)"
  have "filter (\<lambda>d. directive_name d = Some ''session_stats'')
          (map (comparison_directive (threshold_or_default t)) (filter ?M canonical_order)) =
        [session_stats_comparison (threshold_or_default t)]"
    if "?M ''session_stats''"
    using that unfolding filter_named_comparison
    by (simp add: comparison_directive_simps canonical_order_def)
  then show ?thesis by (simp add: compare_snapshots_closed session_stats_comparison_def)
qed

text \<open>The default list with a threshold of 25, of 0 and with a string in its place.\<close>

theorem session_stats_threshold_directive_witness:
  "''session_stats'' \<in> set (snapshot_list_or_default None) \<and>
   filter (\<lambda>d. directive_name d = Some ''session_stats'')
     (projr (compare_snapshots PyNone PyNone None (PyInt 25))) =
     [PyDict [(''session_stats'', PyDict [(''thresholds'',
        PyList [PyDict [(''num-max'', PyInt 25)], PyDict [(''num-tcp'', PyInt 25)]])])]] \<and>
   filter (\<lambda>d. directive_name d = Some ''session_stats'')
     (projr (compare_snapshots PyNone PyNone None (PyInt 0))) =
     [PyDict [(''session_stats'', PyDict [(''thresholds'',
        PyList [PyDict [(''num-max'', PyInt 10)], PyDict [(''num-tcp'', PyInt 10)]])])]] \<and>
   filter (\<lambda>d. directive_name d = Some ''session_stats'')
     (projr (compare_snapshots PyNone PyNone None (PyStr ''25''))) =
     [PyDict [(''session_stats'', PyDict [(''thresholds'',
        PyList [PyDict [(''num-max'', PyInt 10)], PyDict [(''num-tcp'', PyInt 10)]])])]]"
proof -
  have m: "''session_stats'' \<in> set (snapshot_list_or_default None)"
    by (simp add: snapshot_list_or_default_def default_snapshot_list_def)
  show ?thesis
    using m session_stats_threshold_directive [of PyNone PyNone None "PyInt 25"]
      session_stats_threshold_directive [of PyNone PyNone None "PyInt 0"]
      session_stats_threshold_directive [of PyNone PyNone None "PyStr ''25''"]
    by auto
qed

section \<open>Input validation: the claims\<close>

text \<open>
  C6 (as amended).  Parsing \<^verbatim>\<open>"10.10.10.10/8.8.8.8/443"\<close> yields
  \<^verbatim>\<open>{source: "10.10.10.10", destination: "8.8.8.8", dest_port: "443"}\<close>, and every
  string with exactly three slash-delimited fields yields the mapping of its fields.  For
  every non-empty string with a field count other than three, \<^verbatim>\<open>run_readiness_checks\<close>
  with \<^verbatim>\<open>session_exist\<close> in the check list and that string as
  \<^verbatim>\<open>check_session_exists\<close> returns no directive list: it raises a \<^verbatim>\<open>ValueError\<close> whose
  message starts with the offending value.
\<close>

theorem session_string_validation:
  "parse_session ''10.10.10.10/8.8.8.8/443'' =
     Inr (PyDict [(''source'', PyStr ''10.10.10.10''), (''destination'', PyStr ''8.8.8.8''),
                  (''dest_port'', PyStr ''443'')]) \<and>
   (\<forall>a b c. split_on CHR ''/'' s = [a, b, c] \<longrightarrow>
      parse_session s = Inr (PyDict [(''source'', PyStr a), (''destination'', PyStr b),
                                     (''dest_port'', PyStr c)])) \<and>
   (s \<noteq> [] \<and> length (split_on CHR ''/'' s) \<noteq> 3 \<and> ''session_exist'' \<in> set cl \<longrightarrow>
      snd (run_readiness_checks fw (Some cl) mcv cand dp ips (Some s) arp) =
        Inl (ValueError
          (s @ '' is not a valid session string. Must be 'source/destination/port'.'')))"
proof -
  have 1: "parse_session ''10.10.10.10/8.8.8.8/443'' =
     Inr (PyDict [(''source'', PyStr ''10.10.10.10''), (''destination'', PyStr ''8.8.8.8''),
                  (''dest_port'', PyStr ''443'')])"
    by code_simp
  have 3: "snd (run_readiness_checks fw (Some cl) mcv cand dp ips (Some s) arp) =
        Inl (ValueError
          (s @ '' is not a valid session string. Must be 'source/destination/port'.''))"
    if "s \<noteq> []" "length (split_on CHR ''/'' s) \<noteq> 3" "''session_exist'' \<in> set cl"
  proof -
    have "session_malformed (Some s)" using that by (simp add: session_malformed_def)
    moreover have "''session_exist'' \<in> set (local_check_list fw (Some cl))"
      using that(3) by (simp add: local_check_list_Some)
    ultimately show ?thesis
      using run_readiness_checks_raises [of fw "Some cl" "Some s" mcv cand dp ips arp]
      by (simp add: session_error_def)
  qed
  show ?thesis using 1 3 by (simp add: parse_session_Inr)
qed

text \<open>A session string of two fields.\<close>

theorem session_string_validation_witness:
  "''10.10.10.10/8.8.8.8'' \<noteq> [] \<and> length (split_on CHR ''/'' ''10.10.10.10/8.8.8.8'') \<noteq> 3 \<and>
   ''session_exist'' \<in> set [''ntp_sync'', ''session_exist''] \<and>
   snd (run_readiness_checks standalone_firewall (Some [''ntp_sync'', ''session_exist''])
          None None PyNone None (Some ''10.10.10.10/8.8.8.8'') None) =
     Inl (ValueError (''10.10.10.10/8.8.8.8'' @
            '' is not a valid session string. Must be 'source/destination/port'.''))"
proof -
  have n: "''10.10.10.10/8.8.8.8'' \<noteq> []" by simp
  have f: "length (split_on CHR ''/'' ''10.10.10.10/8.8.8.8'') \<noteq> 3" by code_simp
  have m: "''session_exist'' \<in> set [''ntp_sync'', ''session_exist'']" by simp
  show ?thesis
    using n f m
      session_string_validation [of "''10.10.10.10/8.8.8.8''" "[''ntp_sync'', ''session_exist'']"
        standalone_firewall None None PyNone None None]
    by blast
qed

text \<open>
  The claim as stated fails on the empty string: it has one field, not three, but
  \<^verbatim>\<open>if check_session_exists:\<close> takes it for a parameter that was not supplied, so the
  call returns a directive list and the check is dropped.
\<close>

theorem empty_session_string_accepted:
  "length (split_on CHR ''/'' []) = 1 \<and>
   snd (run_readiness_checks standalone_firewall (Some [''session_exist''])
          None None PyNone None (Some []) None) =
     Inr [PyStr ''free_disk_space'']"
  by code_simp

text \<open>
  C7.  For every supplied (non-empty) \<^verbatim>\<open>arp_entry_exists\<close> argument of the command: if
  the value is not a valid IPv4 address, the command returns no directive list; it
  raises, and when \<^verbatim>\<open>arg_to_number\<close> has accepted \<^verbatim>\<open>dp_mp_clock_diff\<close> the error is
  the \<^verbatim>\<open>ValueError\<close> that names the value, raised before \<^verbatim>\<open>run_readiness_checks\<close> is
  called.  If the value is valid and the check list names \<^verbatim>\<open>arp_entry_exists\<close> (or its
  alias \<^verbatim>\<open>arp\<close>), the output of the command contains
  \<^verbatim>\<open>{arp_entry_exist: {ip: value}}\<close>, under the evaluator's key without the trailing s;
  so does the output of \<^verbatim>\<open>run_readiness_checks\<close> itself for a check list that contains
  \<^verbatim>\<open>arp_entry_exists\<close>.
\<close>

theorem arp_entry_validation:
  "v \<noteq> [] \<Longrightarrow> arg_arp_entry_exists args = Some v \<Longrightarrow>
   (\<not> is_ip_valid v \<longrightarrow>
      (\<exists>e. command_run_readiness_checks is_ip_valid argToList arg_to_number panorama args =
            Inl e) \<and>
      (\<forall>n. arg_to_number (arg_dp_mp_clock_diff args) = Inr n \<longrightarrow>
         command_run_readiness_checks is_ip_valid argToList arg_to_number panorama args =
           Inl (ValueError (v @ '' is not a valid IPv4 address.'')))) \<and>
   (is_ip_valid v \<longrightarrow>
      (\<forall>out. (''arp_entry_exists'' \<in> set (argToList (arg_check_list args)) \<or>
              ''arp'' \<in> set (argToList (arg_check_list args))) \<and>
             command_run_readiness_checks is_ip_valid argToList arg_to_number panorama args =
               Inr out \<longrightarrow>
             PyDict [(''arp_entry_exist'', PyDict [(''ip'', PyStr v)])] \<in> set out)) \<and>
   (\<forall>out. ''arp_entry_exists'' \<in> set cl \<and>
          snd (run_readiness_checks fw (Some cl) mcv cand dp ips cse (Some v)) = Inr out \<longrightarrow>
          PyDict [(''arp_entry_exist'', PyDict [(''ip'', PyStr v)])] \<in> set out)"
proof -
  assume ne: "v \<noteq> []" and arg: "arg_arp_entry_exists args = Some v"
  have 1: "\<exists>e. command_run_readiness_checks is_ip_valid argToList arg_to_number panorama args
             = Inl e"
    if "\<not> is_ip_valid v"
    using that ne arg
    by (cases "arg_to_number (arg_dp_mp_clock_diff args)")
       (simp_all add: command_run_readiness_checks_def invalid_arp_entry_def Let_def)
  have 2: "command_run_readiness_checks is_ip_valid argToList arg_to_number panorama args =
           Inl (ValueError (v @ '' is not a valid IPv4 address.''))"
    if "\<not> is_ip_valid v" "arg_to_number (arg_dp_mp_clock_diff args) = Inr n" for n
    using that ne arg
    by (simp add: command_run_readiness_checks_def invalid_arp_entry_def Let_def arp_error_def)
  have 4: "PyDict [(''arp_entry_exist'', PyDict [(''ip'', PyStr v)])] \<in> set out"
    if m: "''arp_entry_exists'' \<in> set cl"
      and r: "snd (run_readiness_checks fw (Some cl) mcv cand dp ips cse (Some v)) = Inr out"
    for cl fw mcv cand dp ips cse out
  proof -
    have "out = check_config_of cl mcv cand dp ips cse (Some v)"
      using run_readiness_checks_Inr [OF r] local_check_list_Some [OF m] by simp
    then show ?thesis using m ne by (simp add: dict_in_config)
  qed
  have 3: "PyDict [(''arp_entry_exist'', PyDict [(''ip'', PyStr v)])] \<in> set out"
    if valid: "is_ip_valid v"
      and mem: "''arp_entry_exists'' \<in> set (argToList (arg_check_list args)) \<or>
                ''arp'' \<in> set (argToList (arg_check_list args))"
      and ret: "command_run_readiness_checks is_ip_valid argToList arg_to_number panorama args
                = Inr out"
    for out
  proof -
    let ?cl = "rename_check ''arp'' ''arp_entry_exists''
                 (rename_check ''ipsec_tunnel'' ''ip_sec_tunnel_status''
                   (rename_check ''dp_mp_clock_diff'' ''planes_clock_sync''
                     (argToList (arg_check_list args))))"
    have m: "''arp_entry_exists'' \<in> set ?cl"
      using mem by (auto simp: in_rename_check)
    obtain number where num: "arg_to_number (arg_dp_mp_clock_diff args) = Inr number"
      using ret by (cases "arg_to_number (arg_dp_mp_clock_diff args)")
        (simp_all add: command_run_readiness_checks_def invalid_arp_entry_def Let_def)
    let ?dp = "case number of None \<Rightarrow> PyNone | Some n \<Rightarrow> PyInt n"
    have "snd (run_readiness_checks (panorama (firewall_serial args)) (Some ?cl)
                (arg_min_content_version args) (arg_candidate_version args) ?dp
                (arg_ipsec_tunnel_status args) (arg_check_session_exists args) (Some v))
          = Inr out"
      using ret num valid ne arg
      by (simp add: command_run_readiness_checks_def invalid_arp_entry_def Let_def)
    then show ?thesis using m by (rule 4 [rotated])
  qed
  show ?thesis using 1 2 3 4 by blast
qed

text \<open>
  The command on the check list \<^verbatim>\<open>ntp_sync,arp\<close>, with the address \<^verbatim>\<open>999.1.1.1\<close> and
  with \<^verbatim>\<open>10.0.0.6\<close>.
\<close>

theorem arp_entry_validation_witness:
  "\<not> is_ipv4 ''999.1.1.1'' \<and> is_ipv4 ''10.0.0.6'' \<and>
   command_run_readiness_checks is_ipv4 comma_list decimal_number standalone_panorama
     \<lparr>firewall_serial = ''007051000050741'', arg_check_list = Some ''ntp_sync,arp'',
      arg_min_content_version = None, arg_candidate_version = None,
      arg_dp_mp_clock_diff = None, arg_ipsec_tunnel_status = None,
      arg_check_session_exists = None, arg_arp_entry_exists = Some ''999.1.1.1''\<rparr> =
     Inl (ValueError (''999.1.1.1'' @ '' is not a valid IPv4 address.'')) \<and>
   command_run_readiness_checks is_ipv4 comma_list decimal_number standalone_panorama
     \<lparr>firewall_serial = ''007051000050741'', arg_check_list = Some ''ntp_sync,arp'',
      arg_min_content_version = None, arg_candidate_version = None,
      arg_dp_mp_clock_diff = None, arg_ipsec_tunnel_status = None,
      arg_check_session_exists = None, arg_arp_entry_exists = Some ''10.0.0.6''\<rparr> =
     Inr [PyStr ''ntp_sync'', PyStr ''free_disk_space'',
          PyDict [(''arp_entry_exist'', PyDict [(''ip'', PyStr ''10.0.0.6'')])]] \<and>
   PyDict [(''arp_entry_exist'', PyDict [(''ip'', PyStr ''10.0.0.6'')])] \<in>
     set [PyStr ''ntp_sync'', PyStr ''free_disk_space'',
          PyDict [(''arp_entry_exist'', PyDict [(''ip'', PyStr ''10.0.0.6'')])]]"
proof -
  let ?bad = "\<lparr>firewall_serial = ''007051000050741'', arg_check_list = Some ''ntp_sync,arp'',
      arg_min_content_version = None, arg_candidate_version = None,
      arg_dp_mp_clock_diff = None, arg_ipsec_tunnel_status = None,
      arg_check_session_exists = None, arg_arp_entry_exists = Some ''999.1.1.1''\<rparr>"
  let ?good = "\<lparr>firewall_serial = ''007051000050741'', arg_check_list = Some ''ntp_sync,arp'',
      arg_min_content_version = None, arg_candidate_version = None,
      arg_dp_mp_clock_diff = None, arg_ipsec_tunnel_status = None,
      arg_check_session_exists = None, arg_arp_entry_exists = Some ''10.0.0.6''\<rparr>"
  have i: "\<not> is_ipv4 ''999.1.1.1''" and g: "is_ipv4 ''10.0.0.6''" by code_simp+
  have nb: "''999.1.1.1'' \<noteq> []" and ng: "''10.0.0.6'' \<noteq> []" by simp_all
  have ab: "arg_arp_entry_exists ?bad = Some ''999.1.1.1''"
    and ag: "arg_arp_entry_exists ?good = Some ''10.0.0.6''" by simp_all
  have d: "decimal_number (arg_dp_mp_clock_diff ?bad) = Inr None"
    by (simp add: decimal_number_def)
  have m: "''arp'' \<in> set (comma_list (arg_check_list ?good))" by code_simp
  have r: "command_run_readiness_checks is_ipv4 comma_list decimal_number standalone_panorama
      ?good =
     Inr [PyStr ''ntp_sync'', PyStr ''free_disk_space'',
          PyDict [(''arp_entry_exist'', PyDict [(''ip'', PyStr ''10.0.0.6'')])]]"
    by code_simp
  show ?thesis
    using i g d m r
      arp_entry_validation [OF nb ab, of is_ipv4 comma_list decimal_number standalone_panorama]
      arp_entry_validation [OF ng ag, of is_ipv4 comma_list decimal_number standalone_panorama]
    by auto
qed

section \<open>Determinism and the caller's list: the claims\<close>




















lemma empty_check_list_untouched:
  "not_list cl \<Longrightarrow> fst (run_readiness_checks fw cl mcv cand dp ips cse arp) = cl"
  by (simp add: run_readiness_checks_eq Let_def caller_check_list_def)

lemma caller_list_after_return:
  "cl \<noteq> [] \<Longrightarrow>
   run_readiness_checks fw (Some cl) mcv cand dp ips cse arp = (after, Inr out) \<Longrightarrow>
   after = Some (remove1 ''arp_entry_exists'' (remove1 ''session_exist''
             (remove1 ''ip_sec_tunnel_status'' (remove1 ''planes_clock_sync''
               ((if supplied mcv then remove1 ''content_version'' cl else cl) @
                (if supplied cand then [] else [''free_disk_space'']))))))  \<and>
   (after \<noteq> Some cl \<longleftrightarrow>
      \<not> supplied cand \<or> (supplied mcv \<and> ''content_version'' \<in> set cl) \<or>
      ''planes_clock_sync'' \<in> set cl \<or> ''ip_sec_tunnel_status'' \<in> set cl \<or>
      ''session_exist'' \<in> set cl \<or> ''arp_entry_exists'' \<in> set cl)"
proof -
  assume ne: "cl \<noteq> []"
    and ret: "run_readiness_checks fw (Some cl) mcv cand dp ips cse arp = (after, Inr out)"
  have l: "local_check_list fw (Some cl) = cl" using ne by (simp add: local_check_list_def)
  have nm: "\<not> (''session_exist'' \<in> set cl \<and> session_malformed cse)"
    using ret l by (auto simp: run_readiness_checks_eq Let_def)
  let ?l6 = "remove1 ''arp_entry_exists'' (remove1 ''session_exist''
               (remaining_checks cl (supplied mcv) (supplied cand)))"
  have a: "after = Some ?l6"
    using ret ne nm l by (auto simp: run_readiness_checks_eq Let_def caller_check_list_def)
  have 1: "after = Some (remove1 ''arp_entry_exists'' (remove1 ''session_exist''
             (remove1 ''ip_sec_tunnel_status'' (remove1 ''planes_clock_sync''
               ((if supplied mcv then remove1 ''content_version'' cl else cl) @
                (if supplied cand then [] else [''free_disk_space''])))))) "
    using a by (simp add: remaining_checks_def)
  have 2: "after \<noteq> Some cl \<longleftrightarrow>
      \<not> supplied cand \<or> (supplied mcv \<and> ''content_version'' \<in> set cl) \<or>
      ''planes_clock_sync'' \<in> set cl \<or> ''ip_sec_tunnel_status'' \<in> set cl \<or>
      ''session_exist'' \<in> set cl \<or> ''arp_entry_exists'' \<in> set cl"
  proof (cases "supplied cand")
    case False
    have "?l6 \<noteq> cl"
      by (rule count_list_differs [of _ "''free_disk_space''"])
         (simp add: remaining_checks_def count_list_remove1_other False)
    then show ?thesis using a False by simp
  next
    case True
    show ?thesis
    proof (cases "(supplied mcv \<and> ''content_version'' \<in> set cl) \<or>
           ''planes_clock_sync'' \<in> set cl \<or> ''ip_sec_tunnel_status'' \<in> set cl \<or>
           ''session_exist'' \<in> set cl \<or> ''arp_entry_exists'' \<in> set cl")
      case False
      then have "?l6 = cl" using True by (auto simp: remaining_checks_def remove1_idem)
      then show ?thesis using a True False by simp
    next
      case rm: True
      have "length ?l6 < length cl"
        using rm True length_pos_if_in_set [of _ cl]
        by (auto simp: remaining_checks_def length_remove1)
      then have "?l6 \<noteq> cl" by auto
      then show ?thesis using a True rm by simp
    qed
  qed
  show ?thesis by (rule conjI [OF 1 2])
qed

text \<open>
  C10 (as amended).  \<^verbatim>\<open>run_readiness_checks\<close> works on the caller's own list object
  whenever the caller supplies a non-empty check list.  After a call that returns, that
  object is the list passed in with \<^verbatim>\<open>content_version\<close> removed if
  \<^verbatim>\<open>min_content_version\<close> is supplied, \<^verbatim>\<open>free_disk_space\<close> appended if
  \<^verbatim>\<open>candidate_version\<close> is not supplied, and \<^verbatim>\<open>planes_clock_sync\<close>,
  \<^verbatim>\<open>ip_sec_tunnel_status\<close>, \<^verbatim>\<open>session_exist\<close> and \<^verbatim>\<open>arp_entry_exists\<close> removed (each
  removal takes the first occurrence, if there is one).  The object no longer equals the
  list that was passed in exactly when one of these changes applies: \<^verbatim>\<open>candidate_version\<close>
  is absent or one of the identifiers to remove is in the list.  An empty list of the
  caller is never changed: the defaults go into a fresh list.
\<close>

theorem check_list_mutated_in_place:
  "run_readiness_checks fw check_list mcv cand dp ips cse arp = (after, Inr out) \<Longrightarrow>
   (not_list check_list \<longrightarrow> after = check_list) \<and>
   (\<forall>cl. check_list = Some cl \<and> cl \<noteq> [] \<longrightarrow>
      after = Some (remove1 ''arp_entry_exists'' (remove1 ''session_exist''
                (remove1 ''ip_sec_tunnel_status'' (remove1 ''planes_clock_sync''
                  ((if supplied mcv then remove1 ''content_version'' cl else cl) @
                   (if supplied cand then [] else [''free_disk_space'']))))))  \<and>
      (after \<noteq> Some cl \<longleftrightarrow>
         \<not> supplied cand \<or> (supplied mcv \<and> ''content_version'' \<in> set cl) \<or>
         ''planes_clock_sync'' \<in> set cl \<or> ''ip_sec_tunnel_status'' \<in> set cl \<or>
         ''session_exist'' \<in> set cl \<or> ''arp_entry_exists'' \<in> set cl))"
proof -
  assume ret: "run_readiness_checks fw check_list mcv cand dp ips cse arp = (after, Inr out)"
  have 1: "after = check_list" if "not_list check_list"
    using empty_check_list_untouched [OF that, of fw mcv cand dp ips cse arp] ret by simp
  have 2: "after = Some (remove1 ''arp_entry_exists'' (remove1 ''session_exist''
                (remove1 ''ip_sec_tunnel_status'' (remove1 ''planes_clock_sync''
                  ((if supplied mcv then remove1 ''content_version'' cl else cl) @
                   (if supplied cand then [] else [''free_disk_space'']))))))  \<and>
      (after \<noteq> Some cl \<longleftrightarrow>
         \<not> supplied cand \<or> (supplied mcv \<and> ''content_version'' \<in> set cl) \<or>
         ''planes_clock_sync'' \<in> set cl \<or> ''ip_sec_tunnel_status'' \<in> set cl \<or>
         ''session_exist'' \<in> set cl \<or> ''arp_entry_exists'' \<in> set cl)"
    if h: "check_list = Some cl" "cl \<noteq> []" for cl
  proof -
    have "run_readiness_checks fw (Some cl) mcv cand dp ips cse arp = (after, Inr out)"
      using ret unfolding h(1) .
    then show ?thesis by (rule caller_list_after_return [OF h(2)])
  qed
  have A: "not_list check_list \<longrightarrow> after = check_list"
    by (rule impI) (rule 1)
  have B: "\<forall>cl. check_list = Some cl \<and> cl \<noteq> [] \<longrightarrow>
      after = Some (remove1 ''arp_entry_exists'' (remove1 ''session_exist''
                (remove1 ''ip_sec_tunnel_status'' (remove1 ''planes_clock_sync''
                  ((if supplied mcv then remove1 ''content_version'' cl else cl) @
                   (if supplied cand then [] else [''free_disk_space'']))))))  \<and>
      (after \<noteq> Some cl \<longleftrightarrow>
         \<not> supplied cand \<or> (supplied mcv \<and> ''content_version'' \<in> set cl) \<or>
         ''planes_clock_sync'' \<in> set cl \<or> ''ip_sec_tunnel_status'' \<in> set cl \<or>
         ''session_exist'' \<in> set cl \<or> ''arp_entry_exists'' \<in> set cl)"
  proof (rule allI, rule impI)
    fix cl
    assume "check_list = Some cl \<and> cl \<noteq> []"
    then have "check_list = Some cl" and "cl \<noteq> []" by simp_all
    then show "after = Some (remove1 ''arp_entry_exists'' (remove1 ''session_exist''
                (remove1 ''ip_sec_tunnel_status'' (remove1 ''planes_clock_sync''
                  ((if supplied mcv then remove1 ''content_version'' cl else cl) @
                   (if supplied cand then [] else [''free_disk_space'']))))))  \<and>
      (after \<noteq> Some cl \<longleftrightarrow>
         \<not> supplied cand \<or> (supplied mcv \<and> ''content_version'' \<in> set cl) \<or>
         ''planes_clock_sync'' \<in> set cl \<or> ''ip_sec_tunnel_status'' \<in> set cl \<or>
         ''session_exist'' \<in> set cl \<or> ''arp_entry_exists'' \<in> set cl)"
      by (rule 2)
  qed
  show ?thesis by (rule conjI [OF A B])
qed

text \<open>A call on a list of two identifiers, one of which is removed.\<close>

theorem check_list_mutated_in_place_witness:
  "run_readiness_checks standalone_firewall (Some [''ntp_sync'', ''planes_clock_sync''])
       None None (PyInt 5) None None None =
     (Some [''ntp_sync'', ''free_disk_space''],
      Inr [PyStr ''ntp_sync'', PyStr ''free_disk_space'',
           PyDict [(''planes_clock_sync'', PyDict [(''diff_threshold'', PyInt 5)])]]) \<and>
   \<not> not_list (Some [''ntp_sync'', ''planes_clock_sync'']) \<and>
   Some [''ntp_sync'', ''free_disk_space''] \<noteq> Some [''ntp_sync'', ''planes_clock_sync'']"
proof -
  have a: "run_readiness_checks standalone_firewall (Some [''ntp_sync'', ''planes_clock_sync''])
       None None (PyInt 5) None None None =
     (Some [''ntp_sync'', ''free_disk_space''],
      Inr [PyStr ''ntp_sync'', PyStr ''free_disk_space'',
           PyDict [(''planes_clock_sync'', PyDict [(''diff_threshold'', PyInt 5)])]])"
    by code_simp
  have n: "\<not> not_list (Some [''ntp_sync'', ''planes_clock_sync''])" by simp
  have c: "Some [''ntp_sync'', ''free_disk_space''] \<noteq> Some [''ntp_sync'', ''planes_clock_sync'']"
    using check_list_mutated_in_place [OF a] by simp
  show ?thesis by (intro conjI a n c)
qed

text \<open>
  The claim as stated fails when no change applies: with a candidate version and a check
  list without any of the identifiers to remove, the caller's list is what it was; and an
  empty list of the caller stays empty while the defaults and \<^verbatim>\<open>free_disk_space\<close> go
  into a fresh list.
\<close>

theorem check_list_left_unchanged:
  "run_readiness_checks standalone_firewall (Some [''ntp_sync''])
       None (Some ''10.2.3'') PyNone None None None =
     (Some [''ntp_sync''],
      Inr [PyStr ''ntp_sync'',
           PyDict [(''free_disk_space'', PyDict [(''image_version'', PyStr ''10.2.3'')])]]) \<and>
   run_readiness_checks standalone_firewall (Some []) None None PyNone None None None =
     (Some [],
      Inr [PyStr ''panorama'', PyStr ''ntp_sync'', PyStr ''candidate_config'',
           PyStr ''active_support'', PyStr ''free_disk_space''])"
  by code_simp

text \<open>
  A call that raises the session error has already applied the changes of the blocks
  before it to the caller's list.
\<close>

lemma check_list_after_session_error:
  "''session_exist'' \<in> set cl \<Longrightarrow> session_malformed cse \<Longrightarrow>
   fst (run_readiness_checks fw (Some cl) mcv cand dp ips cse arp) =
     Some (remaining_checks cl (supplied mcv) (supplied cand))"
  by (auto simp: run_readiness_checks_eq Let_def caller_check_list_def local_check_list_Some)

end
